theory Spec2Isabelle
  imports Complex_Main "HOL-Library.Extended_Nat" "HOL-Library.AList"
begin

section \<open>Navigation environments of gibson2/envs/locomotor\_env.py\<close>

text \<open>
  The three environment classes \<^verbatim>\<open>NavigateEnv\<close>, \<^verbatim>\<open>NavigateRandomEnv\<close> and
  \<^verbatim>\<open>InteractiveNavigateEnv\<close> are embedded as functions on a record of the object's
  attributes. A method that writes attributes returns the object next to its result,
  also when it raises, since the object keeps what was written before the exception. A
  method of the name alone (\<open>get_state\<close>, \<open>get_reward\<close>, ...) is the call
  \<^verbatim>\<open>self.method()\<close>, which picks the method of the object's class; the methods of the
  classes carry the class name.

  Every \<^verbatim>\<open>raise\<close>, failed \<^verbatim>\<open>assert\<close> and failing library call of the source is a value
  of the type \<open>error\<close>. The robot, the door, the physics engine and the renderer are
  collaborators: what they answer is an input (the records \<open>world\<close> and
  \<open>reset_input\<close>), and the calls that change them are events of a trace.

  Python floats are read as reals. Where numpy would produce \<^verbatim>\<open>inf\<close> or \<^verbatim>\<open>nan\<close> (a
  potential divided by a zero baseline, the mean of an empty array) the real division by
  zero of HOL gives 0; no property below rests on such a value. The methods \<^verbatim>\<open>reload\<close>
  and \<^verbatim>\<open>set_subgoal\<close> and the demonstration at the end of the module are not embedded.
\<close>

subsection \<open>Exceptions\<close>

datatype error =
    KeyError
  | TypeError
  | AssertionError
  | IndexError
  | NameError
  | ValueError
  | UnboundLocalError

subsection \<open>Angle wrapping\<close>

text \<open>
  \<^verbatim>\<open>states[indices] - np.pi * 2 * np.floor((states[indices] + np.pi) / (np.pi * 2))\<close>,
  for one selected entry.
\<close>

definition wrap_angle :: "real \<Rightarrow> real" where
  "wrap_angle x = x - pi * 2 * of_int \<lfloor>(x + pi) / (pi * 2)\<rfloor>"

text \<open>
  \<^verbatim>\<open>wrap_to_pi(states, indices)\<close>: the entries of \<open>states\<close> selected by the index array
  are replaced, the others are kept. numpy raises IndexError when a selected index is not
  a position of the array; the index arrays of the source are non-negative.
\<close>

definition wrap_to_pi :: "real list \<Rightarrow> nat list \<Rightarrow> error + real list" where
  "wrap_to_pi states indices =
     (if list_all (\<lambda>i. i < length states) indices
      then Inr (map (\<lambda>(i, x). if i \<in> set indices then wrap_angle x else x)
                    (List.enumerate 0 states))
      else Inl IndexError)"

subsection \<open>Vectors and the helpers of gibson2.utils.utils\<close>

text \<open>
  Positions and Euler angles are arrays of three floats. The helpers \<^verbatim>\<open>l2_distance\<close>
  and \<^verbatim>\<open>rotate_vector_3d\<close> are imported from gibson2.utils.utils, which is not among the
  sources at hand. \<^verbatim>\<open>rotate_vector_3d\<close> is a parameter (a field of the record \<open>world\<close>
  below); all that is used of it is that it returns three numbers.
\<close>

type_synonym vec3 = "real \<times> real \<times> real"

definition vec3_sub :: "vec3 \<Rightarrow> vec3 \<Rightarrow> vec3" where
  "vec3_sub a b =
     (case a of (ax, ay, az) \<Rightarrow> case b of (bx, by, bz) \<Rightarrow> (ax - bx, ay - by, az - bz))"

definition vec3_list :: "vec3 \<Rightarrow> real list" where
  "vec3_list a = (case a of (x, y, z) \<Rightarrow> [x, y, z])"

definition vec3_z :: "vec3 \<Rightarrow> real" where
  "vec3_z a = (case a of (x, y, z) \<Rightarrow> z)"

text \<open>
  Modelled from the spec: \<^verbatim>\<open>l2_distance\<close> of gibson2.utils.utils is missing; the spec
  calls what it returns the distance between the position of interest and the goal, read
  here as the Euclidean distance of the name. \<open>l2_norm\<close> is \<^verbatim>\<open>np.linalg.norm\<close>. The
  general properties below hold for any distance function; its values are only computed
  on the example objects.
\<close>

definition l2_norm :: "vec3 \<Rightarrow> real" where
  "l2_norm a = (case a of (x, y, z) \<Rightarrow> sqrt (x * x + y * y + z * z))"

definition l2_distance :: "vec3 \<Rightarrow> vec3 \<Rightarrow> real" where
  "l2_distance v1 v2 = l2_norm (vec3_sub v1 v2)"

text \<open>\<^verbatim>\<open>x.mean()\<close> and \<^verbatim>\<open>np.clip(x, lo, hi)\<close> on floats.\<close>

definition mean :: "real list \<Rightarrow> real" where
  "mean xs = sum_list xs / real (length xs)"

definition clip :: "real \<Rightarrow> real \<Rightarrow> real \<Rightarrow> real" where
  "clip x lo hi = min (max x lo) hi"

subsection \<open>Data\<close>

text \<open>
  One contact point of \<^verbatim>\<open>p.getContactPoints\<close>: the first five entries of the tuple, of
  which the source reads entries 2, 3 and 4.
\<close>

record contact =
  contactFlag :: int
  bodyUniqueIdA :: int
  bodyUniqueIdB :: int
  linkIndexA :: int
  linkIndexB :: int

text \<open>
  The elements of a \<^verbatim>\<open>collision_links\<close> list: Python lets the same list hold link ids
  (integers) or whole contact tuples, and compares them by value.
\<close>

datatype pyobj = PyInt int | PyContact contact

text \<open>Prints on the console and calls that change the door joint or a constraint, as events.\<close>

datatype event =
    Print string
  | ResetJointState real real
  | CreateConstraint nat
  | ChangeConstraint nat real
  | RemoveConstraint nat

text \<open>
  The values of an observation. The payload of a rendered channel is opaque, only the
  requested mode is kept.
\<close>

datatype obs_value = Vec "real list" | Flag bool | Rendered string

type_synonym observation = "(string \<times> obs_value) list"

datatype info_value = InfoBool bool | InfoInt nat | InfoObs observation

type_synonym info = "(string \<times> info_value) list"

text \<open>
  The parsed configuration file. A key that is absent is \<open>None\<close>;
  \<^verbatim>\<open>config.get(key, default)\<close> is \<open>config_get\<close>.
\<close>

record config =
  c_task :: "string option"
  c_initial_pos :: "vec3 option"
  c_initial_orn :: "vec3 option"
  c_target_pos :: "vec3 option"
  c_target_orn :: "vec3 option"
  c_additional_states_dim :: "nat option"
  c_auxiliary_sensor_dim :: "nat option"
  c_normalize_observation :: "bool option"
  c_observation_normalizer :: "(string \<Rightarrow> (real list \<times> real list) option) option"
  c_dist_tol :: "real option"
  c_max_step :: "enat option"
  c_success_reward :: "real option"
  c_slack_reward :: "real option"
  c_potential_reward_weight :: "real option"
  c_electricity_reward_weight :: "real option"
  c_stall_torque_reward_weight :: "real option"
  c_collision_reward_weight :: "real option"
  c_collision_links :: "int list option"
  c_discount_factor :: "real option"
  c_output :: "string list option"
  c_resolution :: "nat option"
  c_visual_object_at_initial_target_pos :: "bool option"
  c_door_angle :: "real option"

definition config_get :: "'a option \<Rightarrow> 'a \<Rightarrow> 'a" where
  "config_get v dflt = (case v of None \<Rightarrow> dflt | Some x \<Rightarrow> x)"

datatype env_class = NavigateEnv | NavigateRandomEnv | InteractiveNavigateEnv

text \<open>
  The attributes of an environment object. \<open>trace\<close> collects the events the object
  has caused, oldest first. Attributes that only hold collaborators (robots, simulator,
  visual objects, action space) are left out; \<open>outputs\<close> is the attribute
  \<^verbatim>\<open>output\<close>. The attributes \<open>initial_potential\<close>, \<open>normalized_potential\<close> and
  \<open>current_step\<close> are first written by \<^verbatim>\<open>reset\<close>, which does not read them; the record
  describes an object that has them, so a \<^verbatim>\<open>step\<close> on an object that was never reset
  (an AttributeError) is not described.
\<close>

record env =
  env_class :: env_class
  config :: config
  automatic_reset :: bool
  simulator_loop :: nat
  initial_pos :: vec3
  initial_orn :: vec3
  target_pos :: vec3
  target_orn :: vec3
  additional_states_dim :: nat
  auxiliary_sensor_dim :: nat
  normalize_observation :: bool
  observation_normalizer :: "string \<Rightarrow> (real list \<times> real list) option"
  dist_tol :: real
  max_step :: enat
  success_reward :: real
  slack_reward :: real
  potential_reward_weight :: real
  electricity_reward_weight :: real
  stall_torque_reward_weight :: real
  collision_reward_weight :: real
  collision_links :: "int set"
  discount_factor :: real
  outputs :: "string list"
  sensor_dim :: nat
  observation_space :: "(string \<times> nat list) list"
  current_episode :: nat
  visual_object_at_initial_target_pos :: bool
  initial_potential :: real
  normalized_potential :: real
  current_step :: nat
  door_body_id :: int
  door_angle :: real
  stage :: nat
  prev_stage :: nat
  cid :: "nat option"
  trace :: "event list"

text \<open>
  What the collaborators answer at one moment: the robot, the door, the physics engine.
  \<open>contact_points t\<close> is the answer of \<^verbatim>\<open>p.getContactPoints(bodyA=robot)\<close> after sub-tick
  \<open>t\<close> of the step; \<open>created_constraint\<close> is the handle a call of
  \<^verbatim>\<open>p.createConstraint\<close> would return; \<open>joint_speed_torque\<close> pairs the arrays
  \<^verbatim>\<open>joint_speeds\<close> and \<^verbatim>\<open>joint_torque\<close> of the robot joint by joint.
\<close>

record world =
  robot_position :: vec3
  robot_rpy :: vec3
  robot_end_effector_position :: vec3
  rotate_vector_3d :: "vec3 \<Rightarrow> real \<Rightarrow> real \<Rightarrow> real \<Rightarrow> vec3"
  joint_speed_torque :: "(real \<times> real) list"
  robot_calc_state :: "real list"
  has_scan_link :: bool
  door_joint_state :: real
  door_handle_link_pos :: vec3
  jr_end_effector_link_pos :: vec3
  contact_points :: "nat \<Rightarrow> contact list"
  created_constraint :: nat

subsection \<open>Loading the configuration\<close>

text \<open>
  \<^verbatim>\<open>NavigateEnv.load\<close>, after the scene and the robot are loaded by the base class. The
  method writes attributes one after the other, so the object is returned also when a
  required key is missing. Loading the image completion network (\<^verbatim>\<open>rgb_filled\<close>) and
  the visual markers is left to the collaborators.
\<close>

definition load :: "env \<Rightarrow> (error + unit) \<times> env" where
  "load env =
     (let cfg = config env;
          env = env\<lparr>
            initial_pos := config_get (c_initial_pos cfg) (0, 0, 0),
            initial_orn := config_get (c_initial_orn cfg) (0, 0, 0),
            target_pos := config_get (c_target_pos cfg) (5, 5, 0),
            target_orn := config_get (c_target_orn cfg) (0, 0, 0),
            additional_states_dim := config_get (c_additional_states_dim cfg) 0,
            auxiliary_sensor_dim := config_get (c_auxiliary_sensor_dim cfg) 0,
            normalize_observation := config_get (c_normalize_observation cfg) False,
            observation_normalizer :=
              config_get (c_observation_normalizer cfg) (\<lambda>key. None),
            dist_tol := config_get (c_dist_tol cfg) 0.2,
            max_step := config_get (c_max_step cfg) \<infinity>,
            success_reward := config_get (c_success_reward cfg) 10,
            slack_reward := config_get (c_slack_reward cfg) (- 0.01),
            potential_reward_weight := config_get (c_potential_reward_weight cfg) 10,
            electricity_reward_weight := config_get (c_electricity_reward_weight cfg) 0,
            stall_torque_reward_weight := config_get (c_stall_torque_reward_weight cfg) 0,
            collision_reward_weight := config_get (c_collision_reward_weight cfg) 0,
            collision_links := set (config_get (c_collision_links cfg) [- 1]),
            discount_factor := config_get (c_discount_factor cfg) 1\<rparr>
      in case c_output cfg of
           None \<Rightarrow> (Inl KeyError, env)
         | Some out \<Rightarrow>
            (let env = env\<lparr>outputs := out, sensor_dim := additional_states_dim env\<rparr>;
                 space = [];
                 space = (if ''sensor'' \<in> set out
                          then AList.update ''sensor'' [sensor_dim env] space else space);
                 space = (if ''auxiliary_sensor'' \<in> set out
                          then AList.update ''auxiliary_sensor'' [auxiliary_sensor_dim env] space
                          else space);
                 space = (if ''pointgoal'' \<in> set out
                          then AList.update ''pointgoal'' [2] space else space)
             in case (if ''rgb'' \<in> set out \<or> ''depth'' \<in> set out
                      then (case c_resolution cfg of
                              None \<Rightarrow> Inl KeyError
                            | Some res \<Rightarrow>
                               (let space = (if ''rgb'' \<in> set out
                                             then AList.update ''rgb'' [res, res, 3] space
                                             else space)
                                in Inr (if ''depth'' \<in> set out
                                        then AList.update ''depth'' [res, res, 1] space
                                        else space)))
                      else Inr space) of
                  Inl e \<Rightarrow> (Inl e, env)
                | Inr space \<Rightarrow>
                    (Inr (),
                     env\<lparr>observation_space := space,
                         current_episode := 0,
                         visual_object_at_initial_target_pos :=
                           config_get (c_visual_object_at_initial_target_pos cfg) False\<rparr>)))"

text \<open>
  The attributes \<^verbatim>\<open>InteractiveNavigateEnv.__init__\<close> adds, once the base class has
  loaded the configuration; \<open>door\<close> is the body id the simulator gave the door.
\<close>

definition stage_get_to_door_handle :: nat where "stage_get_to_door_handle = 0"
definition stage_open_door :: nat where "stage_open_door = 1"
definition stage_get_to_target_pos :: nat where "stage_get_to_target_pos = 2"

definition door_handle_link_id :: int where "door_handle_link_id = 2"
definition door_axis_link_id :: int where "door_axis_link_id = 1"
definition jr_end_effector_link_id :: int where "jr_end_effector_link_id = 34"

definition InteractiveNavigateEnv_init :: "env \<Rightarrow> int \<Rightarrow> env" where
  "InteractiveNavigateEnv_init env door =
     env\<lparr>env_class := InteractiveNavigateEnv,
         door_body_id := door,
         door_angle := - (config_get (c_door_angle (config env)) 90 / 180) * pi,
         stage := 0,
         prev_stage := 0,
         cid := None\<rparr>"

subsection \<open>Potential\<close>

text \<open>
  \<^verbatim>\<open>get_position_of_interest\<close> returns \<^verbatim>\<open>None\<close> when the task is neither of the two
  it knows; \<^verbatim>\<open>l2_distance\<close> of a position and \<^verbatim>\<open>None\<close> is a TypeError of the array
  subtraction.
\<close>

definition get_position_of_interest :: "env \<Rightarrow> world \<Rightarrow> error + vec3 option" where
  "get_position_of_interest env w =
     (case c_task (config env) of
        None \<Rightarrow> Inl KeyError
      | Some task \<Rightarrow>
          if task = ''pointgoal'' then Inr (Some (robot_position w))
          else if task = ''reaching'' then Inr (Some (robot_end_effector_position w))
          else Inr None)"

text \<open>\<^verbatim>\<open>l2_distance(self.target_pos, self.get_position_of_interest())\<close>\<close>

definition goal_distance :: "env \<Rightarrow> world \<Rightarrow> error + real" where
  "goal_distance env w =
     (case get_position_of_interest env w of
        Inl e \<Rightarrow> Inl e
      | Inr None \<Rightarrow> Inl TypeError
      | Inr (Some pos) \<Rightarrow> Inr (l2_distance (target_pos env) pos))"

definition NavigateEnv_get_potential :: "env \<Rightarrow> world \<Rightarrow> error + real" where
  "NavigateEnv_get_potential env w = goal_distance env w"

definition InteractiveNavigateEnv_get_potential :: "env \<Rightarrow> world \<Rightarrow> error + real" where
  "InteractiveNavigateEnv_get_potential env w =
     (let door_angle = door_joint_state w;
          door_handle_pos = door_handle_link_pos w
      in if stage env = stage_get_to_door_handle
         then Inr (l2_distance door_handle_pos (robot_end_effector_position w))
         else if stage env = stage_open_door
         then Inr \<bar>door_angle + pi\<bar>
         else if stage env = stage_get_to_target_pos
         then Inr (l2_distance (target_pos env) (robot_position w))
         else Inl UnboundLocalError)"

text \<open>\<^verbatim>\<open>self.get_potential()\<close>: the method of the object's class.\<close>

definition get_potential :: "env \<Rightarrow> world \<Rightarrow> error + real" where
  "get_potential env w =
     (case env_class env of
        InteractiveNavigateEnv \<Rightarrow> InteractiveNavigateEnv_get_potential env w
      | _ \<Rightarrow> NavigateEnv_get_potential env w)"

subsection \<open>Observation\<close>

definition NavigateEnv_get_additional_states :: "env \<Rightarrow> world \<Rightarrow> error + real list" where
  "NavigateEnv_get_additional_states env w =
     (case robot_rpy w of (roll, pitch, yaw) \<Rightarrow>
     (let relative_position = vec3_sub (target_pos env) (robot_position w);
          additional_states =
            vec3_list (rotate_vector_3d w relative_position roll pitch yaw)
      in (case c_task (config env) of
           None \<Rightarrow> Inl KeyError
         | Some task \<Rightarrow>
             let additional_states =
                   (if task = ''reaching''
                    then let end_effector_pos =
                               vec3_sub (robot_end_effector_position w) (robot_position w);
                             end_effector_pos =
                               rotate_vector_3d w end_effector_pos roll pitch yaw
                         in additional_states @ vec3_list end_effector_pos
                    else additional_states)
             in if length additional_states = additional_states_dim env
                then Inr additional_states
                else Inl AssertionError)))"

definition InteractiveNavigateEnv_get_additional_states ::
  "env \<Rightarrow> world \<Rightarrow> error + real list" where
  "InteractiveNavigateEnv_get_additional_states env w =
     (case robot_rpy w of (roll, pitch, yaw) \<Rightarrow>
     (let robot_position = take 2 (vec3_list (robot_position w));
          end_effector_pos = vec3_sub (robot_end_effector_position w) (world.robot_position w);
          end_effector_pos = rotate_vector_3d w end_effector_pos roll pitch yaw;
          door_angle = door_joint_state w;
          additional_states = robot_position @ vec3_list end_effector_pos @ [yaw, door_angle]
      in (case wrap_to_pi additional_states [5, 6] of
           Inl e \<Rightarrow> Inl e
         | Inr additional_states \<Rightarrow>
             if length additional_states = additional_states_dim env
             then Inr additional_states
             else Inl AssertionError)))"

definition get_additional_states :: "env \<Rightarrow> world \<Rightarrow> error + real list" where
  "get_additional_states env w =
     (case env_class env of
        InteractiveNavigateEnv \<Rightarrow> InteractiveNavigateEnv_get_additional_states env w
      | _ \<Rightarrow> NavigateEnv_get_additional_states env w)"

text \<open>
  \<^verbatim>\<open>raise np.array([])\<close>: an array is not an exception, so the statement itself fails
  with a TypeError.
\<close>

definition NavigateEnv_get_auxiliary_sensor :: "env \<Rightarrow> world \<Rightarrow> error + real list" where
  "NavigateEnv_get_auxiliary_sensor env w = Inl TypeError"

text \<open>
  The slices written into the zero array of length 42 cover it from 0 to 41 without a
  gap, so the array is the concatenation of the slices.
\<close>

definition InteractiveNavigateEnv_get_auxiliary_sensor ::
  "env \<Rightarrow> world \<Rightarrow> error + real list" where
  "InteractiveNavigateEnv_get_auxiliary_sensor env w =
     (let robot_state = robot_calc_state w
      in if auxiliary_sensor_dim env \<noteq> 42 then Inl AssertionError
         else if length robot_state \<noteq> 46 then Inl AssertionError
         else case robot_rpy w of (r, p, yaw) \<Rightarrow>
           let cos_yaw = cos yaw;
               sin_yaw = sin yaw;
               has_door_handle_in_hand = (if stage env = stage_open_door then 1 else - 1);
               door_pos = (0, 0, - 0.02);
               target_pos = target_pos env;
               robot_pos = robot_position w;
               door_pos_local = rotate_vector_3d w (vec3_sub door_pos robot_pos) r p yaw;
               target_pos_local = rotate_vector_3d w (vec3_sub target_pos robot_pos) r p yaw;
               auxiliary_sensor =
                 take 6 robot_state @ take 6 (drop 7 robot_state) @
                 take 15 (drop 19 robot_state) @ take 3 (drop 43 robot_state) @
                 [cos_yaw, sin_yaw, has_door_handle_in_hand] @
                 vec3_list target_pos @ vec3_list door_pos_local @
                 vec3_list target_pos_local
           in wrap_to_pi auxiliary_sensor [12, 15, 18, 21, 24])"

definition get_auxiliary_sensor :: "env \<Rightarrow> world \<Rightarrow> error + real list" where
  "get_auxiliary_sensor env w =
     (case env_class env of
        InteractiveNavigateEnv \<Rightarrow> InteractiveNavigateEnv_get_auxiliary_sensor env w
      | _ \<Rightarrow> NavigateEnv_get_auxiliary_sensor env w)"

text \<open>
  \<^verbatim>\<open>NavigateEnv.get_state\<close>. The dictionary keeps the order in which keys were first
  written; \<open>set_channel\<close> is the statement
  \<^verbatim>\<open>if key in self.output: state[key] = value\<close>. The \<^verbatim>\<open>rgb_filled\<close> channel reads \<^verbatim>\<open>state['rgb']\<close>, a KeyError when that channel
  was not requested. The \<^verbatim>\<open>scan\<close> branch, once past its assertion, calls the name
  \<^verbatim>\<open>get_state\<close>, which is not bound in the module (line 305).
\<close>

definition set_channel :: "bool \<Rightarrow> string \<Rightarrow> obs_value \<Rightarrow> observation \<Rightarrow> observation" where
  "set_channel requested key v state =
     (if requested then AList.update key v state else state)"

definition NavigateEnv_get_state :: "env \<Rightarrow> world \<Rightarrow> pyobj list \<Rightarrow> error + observation" where
  "NavigateEnv_get_state env w links =
     (case get_additional_states env w of
        Inl e \<Rightarrow> Inl e
      | Inr sensor_state \<Rightarrow>
     (case get_auxiliary_sensor env w of
        Inl e \<Rightarrow> Inl e
      | Inr auxiliary_sensor \<Rightarrow>
          let out = set (outputs env);
              state = [];
              state = set_channel (''sensor'' \<in> out) ''sensor'' (Vec sensor_state) state;
              state = set_channel (''auxiliary_sensor'' \<in> out) ''auxiliary_sensor''
                        (Vec auxiliary_sensor) state;
              state = set_channel (''pointgoal'' \<in> out) ''pointgoal''
                        (Vec (take 2 sensor_state)) state;
              state = set_channel (''rgb'' \<in> out) ''rgb'' (Rendered ''rgb'') state;
              state = set_channel (''depth'' \<in> out) ''depth'' (Rendered ''3d'') state;
              state = set_channel (''normal'' \<in> out) ''normal'' (Rendered ''normal'') state;
              state = set_channel (''seg'' \<in> out) ''seg'' (Rendered ''seg'') state
          in if ''rgb_filled'' \<in> out \<and> map_of state ''rgb'' = None then Inl KeyError
             else
               let state = set_channel (''rgb_filled'' \<in> out) ''rgb_filled''
                             (Rendered ''rgb_filled'') state;
                   state = set_channel (''bump'' \<in> out) ''bump''
                             (Flag (PyInt (- 1) \<in> set links)) state;
                   state = set_channel (''pointgoal'' \<in> out) ''pointgoal''
                             (Vec (take 2 sensor_state)) state
               in if ''scan'' \<in> out
                  then (if has_scan_link w then Inl NameError else Inl AssertionError)
                  else Inr state))"

text \<open>
  The normalization of one channel, \<^verbatim>\<open>(np.clip(x, lo, hi) - avg) / mag\<close>, entry by
  entry. A flag is clipped as the number 0 or 1. Bounds whose length differs from the
  channel's are refused here with a ValueError (numpy would still broadcast a bound of
  length one); a rendered payload stays opaque.
\<close>

definition normalize_values :: "real list \<Rightarrow> real list \<Rightarrow> real list \<Rightarrow> error + obs_value" where
  "normalize_values obs_min obs_max xs =
     (if length obs_min = length xs \<and> length obs_max = length xs
      then Inr (Vec (map (\<lambda>(x, lo, hi). (clip x lo hi - (hi + lo) / 2) / ((hi - lo) / 2))
                         (zip xs (zip obs_min obs_max))))
      else Inl ValueError)"

fun normalize_channel :: "real list \<Rightarrow> real list \<Rightarrow> obs_value \<Rightarrow> error + obs_value" where
  "normalize_channel obs_min obs_max (Vec xs) = normalize_values obs_min obs_max xs"
| "normalize_channel obs_min obs_max (Flag b) =
     normalize_values obs_min obs_max [if b then 1 else 0]"
| "normalize_channel obs_min obs_max (Rendered m) = Inr (Rendered m)"

fun normalize_state ::
  "(string \<Rightarrow> (real list \<times> real list) option) \<Rightarrow> observation \<Rightarrow> error + observation" where
  "normalize_state normalizer [] = Inr []"
| "normalize_state normalizer ((key, v) # rest) =
     (case normalizer key of
        None \<Rightarrow> Inl KeyError
      | Some (obs_min, obs_max) \<Rightarrow>
          (case normalize_channel obs_min obs_max v of
             Inl e \<Rightarrow> Inl e
           | Inr v' \<Rightarrow>
               (case normalize_state normalizer rest of
                  Inl e \<Rightarrow> Inl e
                | Inr rest' \<Rightarrow> Inr ((key, v') # rest'))))"

text \<open>
  \<^verbatim>\<open>InteractiveNavigateEnv.get_state\<close> calls the method of the base class without an
  argument, so that one sees the default \<^verbatim>\<open>collision_links=[]\<close>. The parameter
  \<^verbatim>\<open>collision_links\<close> of the methods is written \<open>links\<close>, the attribute of the same
  name keeps its name.
\<close>

definition InteractiveNavigateEnv_get_state ::
  "env \<Rightarrow> world \<Rightarrow> pyobj list \<Rightarrow> error + observation" where
  "InteractiveNavigateEnv_get_state env w links =
     (case NavigateEnv_get_state env w [] of
        Inl e \<Rightarrow> Inl e
      | Inr state \<Rightarrow>
          if normalize_observation env
          then normalize_state (observation_normalizer env) state
          else Inr state)"

definition get_state :: "env \<Rightarrow> world \<Rightarrow> pyobj list \<Rightarrow> error + observation" where
  "get_state env w links =
     (case env_class env of
        InteractiveNavigateEnv \<Rightarrow> InteractiveNavigateEnv_get_state env w links
      | _ \<Rightarrow> NavigateEnv_get_state env w links)"

text \<open>
  \<^verbatim>\<open>run_simulation\<close>: the contact tuples of all sub-ticks, in order, as the list
  \<^verbatim>\<open>collision_links\<close>.
\<close>

definition run_simulation :: "env \<Rightarrow> world \<Rightarrow> pyobj list" where
  "run_simulation env w =
     concat (map (\<lambda>tick. map PyContact (contact_points w tick)) [0..<simulator_loop env])"

subsection \<open>Reward\<close>

text \<open>
  \<^verbatim>\<open>[elem[3] for elem in collision_links]\<close>: subscripting an integer is a TypeError.
\<close>

fun link_ids :: "pyobj list \<Rightarrow> error + int list" where
  "link_ids [] = Inr []"
| "link_ids (PyInt n # rest) = Inl TypeError"
| "link_ids (PyContact elem # rest) =
     (case link_ids rest of
        Inl e \<Rightarrow> Inl e
      | Inr ids \<Rightarrow> Inr (linkIndexA elem # ids))"

text \<open>
  The same with the filter of \<^verbatim>\<open>InteractiveNavigateEnv.get_reward\<close>, which drops the
  contacts with the door handle.
\<close>

fun link_ids_off_handle :: "env \<Rightarrow> pyobj list \<Rightarrow> error + int list" where
  "link_ids_off_handle env [] = Inr []"
| "link_ids_off_handle env (PyInt n # rest) = Inl TypeError"
| "link_ids_off_handle env (PyContact elem # rest) =
     (case link_ids_off_handle env rest of
        Inl e \<Rightarrow> Inl e
      | Inr ids \<Rightarrow>
          if \<not> (bodyUniqueIdB elem = door_body_id env \<and> linkIndexB elem = door_handle_link_id)
          then Inr (linkIndexA elem # ids)
          else Inr ids)"

definition NavigateEnv_get_reward :: "env \<Rightarrow> world \<Rightarrow> pyobj list \<Rightarrow> (error + real) \<times> env" where
  "NavigateEnv_get_reward env w links =
     (let reward = slack_reward env
      in (case get_potential env w of
            Inl e \<Rightarrow> (Inl e, env)
          | Inr potential \<Rightarrow>
             (let new_normalized_potential = potential / initial_potential env;
                  potential_reward = normalized_potential env - new_normalized_potential;
                  reward = reward + potential_reward * potential_reward_weight env;
                  env = env\<lparr>normalized_potential := new_normalized_potential\<rparr>;
                  electricity_reward = 0;
                  reward = reward + electricity_reward * electricity_reward_weight env;
                  stall_torque_reward = 0;
                  reward = reward + stall_torque_reward * stall_torque_reward_weight env
              in (case link_ids links of
                    Inl e \<Rightarrow> (Inl e, env)
                  | Inr ids \<Rightarrow>
                     (let collision_link_ids = set ids;
                          collision_reward =
                            (if collision_link_ids \<inter> collision_links env \<noteq> {} then 1 else 0);
                          reward = reward + collision_reward * collision_reward_weight env
                      in (case goal_distance env w of
                            Inl e \<Rightarrow> (Inl e, env)
                          | Inr distance \<Rightarrow>
                              (Inr (if distance < dist_tol env
                                    then reward + success_reward env else reward),
                               env)))))))"

definition InteractiveNavigateEnv_get_reward ::
  "env \<Rightarrow> world \<Rightarrow> pyobj list \<Rightarrow> (error + real) \<times> env" where
  "InteractiveNavigateEnv_get_reward env w links =
     (let reward = 0
      in (case get_potential env w of
            Inl e \<Rightarrow> (Inl e, env)
          | Inr potential \<Rightarrow>
             (let (reward, env) =
                    (if stage env \<noteq> prev_stage env
                     then (reward + success_reward env / 2,
                           env\<lparr>initial_potential := potential, normalized_potential := 1\<rparr>)
                     else
                       (let new_normalized_potential = potential / initial_potential env;
                            potential_reward =
                              normalized_potential env - new_normalized_potential
                        in (reward + potential_reward * potential_reward_weight env,
                            env\<lparr>normalized_potential := new_normalized_potential\<rparr>)));
                  electricity_reward =
                    mean (map (\<lambda>(speed, torque). \<bar>speed * torque\<bar>) (joint_speed_torque w));
                  reward = reward +
                    clip (electricity_reward * electricity_reward_weight env) (- 0.005) 0;
                  stall_torque_reward =
                    mean (map (\<lambda>(speed, torque). torque * torque) (joint_speed_torque w));
                  reward = reward +
                    clip (stall_torque_reward * stall_torque_reward_weight env) (- 0.005) 0
              in (case link_ids_off_handle env links of
                    Inl e \<Rightarrow> (Inl e, env)
                  | Inr ids \<Rightarrow>
                     (let collision_link_ids = set ids;
                          collision_reward =
                            (if collision_link_ids \<inter> collision_links env \<noteq> {} then 1 else 0);
                          reward = reward + collision_reward * collision_reward_weight env
                      in (case goal_distance env w of
                            Inl e \<Rightarrow> (Inl e, env)
                          | Inr distance \<Rightarrow>
                             (let reward = (if distance < dist_tol env
                                            then reward + success_reward env else reward);
                                  reward = (if vec3_z (robot_position w) > 0.1
                                            then reward - success_reward env else reward)
                              in (Inr reward, env))))))))"

definition get_reward :: "env \<Rightarrow> world \<Rightarrow> pyobj list \<Rightarrow> (error + real) \<times> env" where
  "get_reward env w links =
     (case env_class env of
        InteractiveNavigateEnv \<Rightarrow> InteractiveNavigateEnv_get_reward env w links
      | _ \<Rightarrow> NavigateEnv_get_reward env w links)"

text \<open>
  The amounts that the statements \<^verbatim>\<open>reward += ...\<close> of the two methods add, by the names
  the properties below use: the shaping term for a potential \<open>potential\<close>, the energy and
  stall-torque terms of the interactive class, the collision term for the link ids
  \<open>ids\<close>, the success bonus for a goal distance \<open>distance\<close>, and the failure penalty.
\<close>

definition shaping_term :: "env \<Rightarrow> real \<Rightarrow> real" where
  "shaping_term env potential =
     (normalized_potential env - potential / initial_potential env) *
     potential_reward_weight env"

definition electricity_term :: "env \<Rightarrow> world \<Rightarrow> real" where
  "electricity_term env w =
     clip (mean (map (\<lambda>(speed, torque). \<bar>speed * torque\<bar>) (joint_speed_torque w)) *
           electricity_reward_weight env) (- 0.005) 0"

definition stall_torque_term :: "env \<Rightarrow> world \<Rightarrow> real" where
  "stall_torque_term env w =
     clip (mean (map (\<lambda>(speed, torque). torque * torque) (joint_speed_torque w)) *
           stall_torque_reward_weight env) (- 0.005) 0"

definition collision_term :: "env \<Rightarrow> int list \<Rightarrow> real" where
  "collision_term env ids =
     (if set ids \<inter> collision_links env \<noteq> {} then 1 else 0) * collision_reward_weight env"

definition success_bonus :: "env \<Rightarrow> real \<Rightarrow> real" where
  "success_bonus env distance = (if distance < dist_tol env then success_reward env else 0)"

definition failure_penalty :: "env \<Rightarrow> world \<Rightarrow> real" where
  "failure_penalty env w = (if vec3_z (robot_position w) > 0.1 then success_reward env else 0)"

subsection \<open>Termination\<close>

definition get_termination :: "env \<Rightarrow> world \<Rightarrow> (error + bool \<times> info) \<times> env" where
  "get_termination env w =
     (let env = env\<lparr>current_step := current_step env + 1\<rparr>;
          done = False;
          info = []
      in (case goal_distance env w of
            Inl e \<Rightarrow> (Inl e, env)
          | Inr distance \<Rightarrow>
             (let (done, info, env) =
                    (if distance < dist_tol env
                     then (True, AList.update ''success'' (InfoBool True) info, env)
                     else if vec3_z (robot_position w) > 0.1
                     then (True, AList.update ''success'' (InfoBool False) info,
                           env\<lparr>trace := trace env @ [Print ''death'']\<rparr>)
                     else if enat (current_step env) \<ge> max_step env
                     then (True, AList.update ''success'' (InfoBool False) info, env)
                     else (done, info, env));
                  info = (if done
                          then AList.update ''episode_length'' (InfoInt (current_step env)) info
                          else info)
              in (Inr (done, info), env))))"

subsection \<open>Reset\<close>

text \<open>
  What a reset finds: for every placement attempt the sampled point and the link ids of
  the contacts collected while the simulator ran, the sampled goals, and the world once
  the robot is placed. The placement loops of the source run until an attempt is good;
  here they run through the attempts given, and \<open>None\<close> says that none of them was
  good, so that the source would still be looping.
\<close>

record reset_input =
  start_trials :: "(vec3 \<times> int list) list"
  target_samples :: "vec3 list"
  placed :: world

definition reset_interactive_objects :: "env \<Rightarrow> env" where
  "reset_interactive_objects env =
     (let env = env\<lparr>trace := trace env @ [ResetJointState 0 0]\<rparr>
      in (case cid env of
            None \<Rightarrow> env
          | Some c \<Rightarrow> env\<lparr>trace := trace env @ [RemoveConstraint c], cid := None\<rparr>))"

text \<open>\<^verbatim>\<open>NavigateEnv.reset_initial_and_target_pos\<close> only moves the robot.\<close>

definition NavigateEnv_reset_initial_and_target_pos :: "env \<Rightarrow> reset_input \<Rightarrow> env option" where
  "NavigateEnv_reset_initial_and_target_pos env rin = Some env"

text \<open>The loop \<^verbatim>\<open>while -1 in collision_links\<close> of \<^verbatim>\<open>NavigateRandomEnv\<close>.\<close>

fun NavigateRandomEnv_initial_pos :: "env \<Rightarrow> (vec3 \<times> int list) list \<Rightarrow> env option" where
  "NavigateRandomEnv_initial_pos env [] = None"
| "NavigateRandomEnv_initial_pos env ((pos, links) # rest) =
     (let env = env\<lparr>initial_pos := pos\<rparr>
      in if - 1 \<in> set links then NavigateRandomEnv_initial_pos env rest else Some env)"

text \<open>The loop \<^verbatim>\<open>while dist < 1.0\<close> of \<^verbatim>\<open>NavigateRandomEnv\<close>.\<close>

fun NavigateRandomEnv_target_pos :: "env \<Rightarrow> vec3 list \<Rightarrow> env option" where
  "NavigateRandomEnv_target_pos env [] = None"
| "NavigateRandomEnv_target_pos env (pos # rest) =
     (let env = env\<lparr>target_pos := pos\<rparr>;
          distance = l2_distance (initial_pos env) (target_pos env)
      in if distance < 1 then NavigateRandomEnv_target_pos env rest else Some env)"

definition NavigateRandomEnv_reset_initial_and_target_pos ::
  "env \<Rightarrow> reset_input \<Rightarrow> env option" where
  "NavigateRandomEnv_reset_initial_and_target_pos env rin =
     (case NavigateRandomEnv_initial_pos env (start_trials rin) of
        None \<Rightarrow> None
      | Some env \<Rightarrow> NavigateRandomEnv_target_pos env (target_samples rin))"

text \<open>
  The loop of \<^verbatim>\<open>InteractiveNavigateEnv\<close>, which always tries the origin, and the fixed
  goal set after it.
\<close>

fun InteractiveNavigateEnv_initial_pos :: "env \<Rightarrow> (vec3 \<times> int list) list \<Rightarrow> env option" where
  "InteractiveNavigateEnv_initial_pos env [] = None"
| "InteractiveNavigateEnv_initial_pos env ((sampled, links) # rest) =
     (let pos = (0, 0, 0);
          env = env\<lparr>initial_pos := pos\<rparr>
      in if - 1 \<in> set links then InteractiveNavigateEnv_initial_pos env rest else Some env)"

definition InteractiveNavigateEnv_reset_initial_and_target_pos ::
  "env \<Rightarrow> reset_input \<Rightarrow> env option" where
  "InteractiveNavigateEnv_reset_initial_and_target_pos env rin =
     (case InteractiveNavigateEnv_initial_pos env (start_trials rin) of
        None \<Rightarrow> None
      | Some env \<Rightarrow> Some (env\<lparr>target_pos := (- 100, - 100, 0)\<rparr>))"

definition reset_initial_and_target_pos :: "env \<Rightarrow> reset_input \<Rightarrow> env option" where
  "reset_initial_and_target_pos env rin =
     (case env_class env of
        NavigateEnv \<Rightarrow> NavigateEnv_reset_initial_and_target_pos env rin
      | NavigateRandomEnv \<Rightarrow> NavigateRandomEnv_reset_initial_and_target_pos env rin
      | InteractiveNavigateEnv \<Rightarrow> InteractiveNavigateEnv_reset_initial_and_target_pos env rin)"

definition NavigateEnv_reset ::
  "env \<Rightarrow> reset_input \<Rightarrow> ((error + observation) \<times> env) option" where
  "NavigateEnv_reset env rin =
     (case reset_initial_and_target_pos env rin of
        None \<Rightarrow> None
      | Some env \<Rightarrow>
         (case get_potential env (placed rin) of
            Inl e \<Rightarrow> Some (Inl e, env)
          | Inr potential \<Rightarrow>
             (let env = env\<lparr>initial_potential := potential,
                            normalized_potential := 1,
                            current_step := 0\<rparr>
              in Some (get_state env (placed rin) [], env))))"

definition InteractiveNavigateEnv_reset ::
  "env \<Rightarrow> reset_input \<Rightarrow> ((error + observation) \<times> env) option" where
  "InteractiveNavigateEnv_reset env rin =
     (let env = reset_interactive_objects env;
          env = env\<lparr>stage := 0\<rparr>;
          env = env\<lparr>prev_stage := stage env\<rparr>
      in NavigateEnv_reset env rin)"

definition reset :: "env \<Rightarrow> reset_input \<Rightarrow> ((error + observation) \<times> env) option" where
  "reset env rin =
     (case env_class env of
        InteractiveNavigateEnv \<Rightarrow> InteractiveNavigateEnv_reset env rin
      | _ \<Rightarrow> NavigateEnv_reset env rin)"

subsection \<open>Step\<close>

text \<open>
  \<open>w\<close> is the world after the sub-ticks of the step, \<open>rin\<close> what an automatic reset
  would find. The action goes to the robot and is not read again.
\<close>

type_synonym step_result = "observation \<times> real \<times> bool \<times> info"

definition NavigateEnv_step ::
  "env \<Rightarrow> real list \<Rightarrow> world \<Rightarrow> reset_input \<Rightarrow> ((error + step_result) \<times> env) option" where
  "NavigateEnv_step env action w rin =
     (let links = run_simulation env w
      in (case get_state env w links of
            Inl e \<Rightarrow> Some (Inl e, env)
          | Inr state \<Rightarrow>
             (case get_reward env w links of
                (Inl e, env) \<Rightarrow> Some (Inl e, env)
              | (Inr reward, env) \<Rightarrow>
                 (case get_termination env w of
                    (Inl e, env) \<Rightarrow> Some (Inl e, env)
                  | (Inr (done, info), env) \<Rightarrow>
                      if done \<and> automatic_reset env
                      then (let info = AList.update ''last_observation'' (InfoObs state) info
                            in (case reset env rin of
                                  None \<Rightarrow> None
                                | Some (Inl e, env) \<Rightarrow> Some (Inl e, env)
                                | Some (Inr state, env) \<Rightarrow>
                                    Some (Inr (state, reward, done, info), env)))
                      else Some (Inr (state, reward, done, info), env)))))"

text \<open>
  The stage machine at the head of \<^verbatim>\<open>InteractiveNavigateEnv.step\<close> (lines 663 to 684);
  \<open>pre\<close> is the world before the sub-ticks of the step. The local variable \<^verbatim>\<open>dist\<close> of
  the source is written \<open>distance\<close>, here and in the methods above.
\<close>

definition stage_transition :: "env \<Rightarrow> world \<Rightarrow> (error + unit) \<times> env" where
  "stage_transition env pre =
     (let distance = l2_norm (vec3_sub (door_handle_link_pos pre) (jr_end_effector_link_pos pre));
          env = env\<lparr>prev_stage := stage env\<rparr>
      in (case (if stage env = stage_get_to_door_handle \<and> distance < 0.2
                then (if cid env \<noteq> None then (Inl AssertionError, env)
                      else (let env = env\<lparr>trace := trace env @
                                           [CreateConstraint (created_constraint pre)],
                                         cid := Some (created_constraint pre)\<rparr>;
                                env = env\<lparr>trace := trace env @
                                           [ChangeConstraint (created_constraint pre) 500]\<rparr>;
                                env = env\<lparr>stage := stage_open_door\<rparr>;
                                env = env\<lparr>trace := trace env @ [Print ''stage open_door'']\<rparr>
                            in (Inr (), env)))
                else (Inr (), env)) of
            (Inl e, env) \<Rightarrow> (Inl e, env)
          | (Inr u, env) \<Rightarrow>
              if stage env = stage_open_door \<and> door_joint_state pre < door_angle env
              then (case cid env of
                      None \<Rightarrow> (Inl AssertionError, env)
                    | Some c \<Rightarrow>
                       (let env = env\<lparr>trace := trace env @ [RemoveConstraint c]\<rparr>;
                            env = env\<lparr>cid := None\<rparr>;
                            env = env\<lparr>stage := stage_get_to_target_pos\<rparr>;
                            env = env\<lparr>trace := trace env @
                                       [Print ''stage get to target pos'']\<rparr>
                        in (Inr (), env)))
              else (Inr (), env)))"

definition InteractiveNavigateEnv_step ::
  "env \<Rightarrow> real list \<Rightarrow> world \<Rightarrow> world \<Rightarrow> reset_input \<Rightarrow>
   ((error + step_result) \<times> env) option" where
  "InteractiveNavigateEnv_step env action pre w rin =
     (case stage_transition env pre of
        (Inl e, env) \<Rightarrow> Some (Inl e, env)
      | (Inr u, env) \<Rightarrow> NavigateEnv_step env action w rin)"

definition step ::
  "env \<Rightarrow> real list \<Rightarrow> world \<Rightarrow> world \<Rightarrow> reset_input \<Rightarrow>
   ((error + step_result) \<times> env) option" where
  "step env action pre w rin =
     (case env_class env of
        InteractiveNavigateEnv \<Rightarrow> InteractiveNavigateEnv_step env action pre w rin
      | _ \<Rightarrow> NavigateEnv_step env action w rin)"

subsection \<open>A caller\<close>

text \<open>
  A caller that steps one object through a list of inputs, as the loop at the end of the
  module does. The object persists when a call raises, so the next call finds it as the
  failed call left it; the result lists the object after each call, up to a call that
  does not return.
\<close>

record step_input =
  action_of :: "real list"
  before_ticks :: world
  after_ticks :: world
  reset_of :: reset_input

fun run_steps :: "env \<Rightarrow> step_input list \<Rightarrow> env list" where
  "run_steps env [] = []"
| "run_steps env (i # rest) =
     (case step env (action_of i) (before_ticks i) (after_ticks i) (reset_of i) of
        None \<Rightarrow> []
      | Some (out, env') \<Rightarrow> env' # run_steps env' rest)"

text \<open>
  Whether a \<^verbatim>\<open>step\<close> call reaches the statement \<^verbatim>\<open>state = self.reset()\<close> of line 413:
  all that comes before it has returned, the step is terminal and the object was built
  with \<^verbatim>\<open>automatic_reset\<close>. Such a call ends the episode and begins the next one.
\<close>

definition NavigateEnv_step_resets :: "env \<Rightarrow> world \<Rightarrow> bool" where
  "NavigateEnv_step_resets env w =
     (let links = run_simulation env w
      in (case get_state env w links of
            Inl e \<Rightarrow> False
          | Inr state \<Rightarrow>
             (case get_reward env w links of
                (Inl e, env) \<Rightarrow> False
              | (Inr reward, env) \<Rightarrow>
                 (case get_termination env w of
                    (Inl e, env) \<Rightarrow> False
                  | (Inr (done, info), env) \<Rightarrow> done \<and> automatic_reset env))))"

definition step_resets :: "env \<Rightarrow> world \<Rightarrow> world \<Rightarrow> bool" where
  "step_resets env pre w =
     (case env_class env of
        InteractiveNavigateEnv \<Rightarrow>
          (case stage_transition env pre of
             (Inl e, env) \<Rightarrow> False
           | (Inr u, env) \<Rightarrow> NavigateEnv_step_resets env w)
      | _ \<Rightarrow> NavigateEnv_step_resets env w)"

text \<open>
  The calls of one episode: the caller's steps up to, and without, the first call that
  reaches the automatic reset.
\<close>

fun run_episode :: "env \<Rightarrow> step_input list \<Rightarrow> env list" where
  "run_episode env [] = []"
| "run_episode env (i # rest) =
     (if step_resets env (before_ticks i) (after_ticks i) then []
      else (case step env (action_of i) (before_ticks i) (after_ticks i) (reset_of i) of
              None \<Rightarrow> []
            | Some (out, env') \<Rightarrow> env' # run_episode env' rest))"

subsection \<open>Example objects\<close>

text \<open>
  Concrete configurations, objects and worlds on which the functions above are run. An
  object is built as the constructors do: the attributes are loaded from the
  configuration, and the interactive class adds its own.
\<close>

definition empty_config :: config where
  "empty_config =
     \<lparr>c_task = None, c_initial_pos = None, c_initial_orn = None, c_target_pos = None,
      c_target_orn = None, c_additional_states_dim = None, c_auxiliary_sensor_dim = None,
      c_normalize_observation = None, c_observation_normalizer = None, c_dist_tol = None,
      c_max_step = None, c_success_reward = None, c_slack_reward = None,
      c_potential_reward_weight = None, c_electricity_reward_weight = None,
      c_stall_torque_reward_weight = None, c_collision_reward_weight = None,
      c_collision_links = None, c_discount_factor = None, c_output = None,
      c_resolution = None, c_visual_object_at_initial_target_pos = None,
      c_door_angle = None\<rparr>"

definition unloaded_env :: "env_class \<Rightarrow> config \<Rightarrow> env" where
  "unloaded_env cls cfg =
     \<lparr>env_class = cls, config = cfg, automatic_reset = False, simulator_loop = 4,
      initial_pos = (0, 0, 0), initial_orn = (0, 0, 0), target_pos = (0, 0, 0),
      target_orn = (0, 0, 0), additional_states_dim = 0, auxiliary_sensor_dim = 0,
      normalize_observation = False, observation_normalizer = (\<lambda>key. None),
      dist_tol = 0, max_step = 0, success_reward = 0, slack_reward = 0,
      potential_reward_weight = 0, electricity_reward_weight = 0,
      stall_torque_reward_weight = 0, collision_reward_weight = 0, collision_links = {},
      discount_factor = 0, outputs = [], sensor_dim = 0, observation_space = [],
      current_episode = 0, visual_object_at_initial_target_pos = False,
      initial_potential = 0, normalized_potential = 0, current_step = 0,
      door_body_id = 0, door_angle = 0, stage = 0, prev_stage = 0, cid = None,
      trace = []\<rparr>"

text \<open>A point-goal task of the base class, with the goal at \<open>(4, 0, 0)\<close>.\<close>

definition pointgoal_config :: config where
  "pointgoal_config =
     empty_config\<lparr>c_task := Some ''pointgoal'', c_target_pos := Some (4, 0, 0),
                  c_additional_states_dim := Some 3, c_max_step := Some 500,
                  c_output := Some [''sensor'', ''bump'']\<rparr>"

definition pointgoal_env :: env where
  "pointgoal_env = snd (load (unloaded_env NavigateEnv pointgoal_config))"

text \<open>
  The door task of the interactive class; the simulator gave the door the body id 3.
\<close>

definition door_config :: config where
  "door_config =
     empty_config\<lparr>c_task := Some ''reaching'', c_additional_states_dim := Some 7,
                  c_auxiliary_sensor_dim := Some 42, c_max_step := Some 500,
                  c_collision_reward_weight := Some (- 1),
                  c_output := Some [''sensor'', ''auxiliary_sensor'', ''bump'']\<rparr>"

definition door_env :: env where
  "door_env =
     InteractiveNavigateEnv_init
       (snd (load (unloaded_env InteractiveNavigateEnv door_config))) 3"

text \<open>
  A world in which the robot stands upright at the point \<open>pos\<close>, its end effector at
  \<open>hand\<close>, the door handle at \<open>handle\<close>, the door joint at \<open>angle\<close>, nothing moves and
  every sub-tick reports the contacts \<open>cs\<close>. With all angles zero the rotation into the
  robot's frame is the identity.
\<close>

definition standing_world :: "vec3 \<Rightarrow> vec3 \<Rightarrow> vec3 \<Rightarrow> real \<Rightarrow> contact list \<Rightarrow> world" where
  "standing_world pos hand handle angle cs =
     \<lparr>robot_position = pos, robot_rpy = (0, 0, 0), robot_end_effector_position = hand,
      rotate_vector_3d = (\<lambda>v r p y. v), joint_speed_torque = [(0, 0), (0, 0)],
      robot_calc_state = replicate 46 0, has_scan_link = False, door_joint_state = angle,
      door_handle_link_pos = handle, jr_end_effector_link_pos = hand,
      contact_points = (\<lambda>tick. cs), created_constraint = 1\<rparr>"

text \<open>
  The start of an episode: the robot at the origin with its end effector at \<open>(1, 0, 0)\<close>,
  the door handle at \<open>(3, 0, 0)\<close>, the door closed, no contact on the first placement.
\<close>

definition start_world :: world where
  "start_world = standing_world (0, 0, 0) (1, 0, 0) (3, 0, 0) 0 []"

definition start_input :: reset_input where
  "start_input = \<lparr>start_trials = [((0, 0, 0), [])], target_samples = [], placed = start_world\<rparr>"

definition pointgoal_started :: env where
  "pointgoal_started = snd (the (reset pointgoal_env start_input))"

definition door_started :: env where
  "door_started = snd (the (reset door_env start_input))"

text \<open>
  The door task constructed with \<^verbatim>\<open>automatic_reset=True\<close>, after its first \<^verbatim>\<open>reset\<close>. The
  flag is a constructor argument; \<^verbatim>\<open>load\<close> and \<^verbatim>\<open>reset\<close> never read it.
\<close>

definition door_resetting :: env where
  "door_resetting = snd (the (reset (door_env\<lparr>automatic_reset := True\<rparr>) start_input))"

text \<open>
  Later in the door episode: the robot has moved to \<open>(2, 0, 0)\<close> and its end effector is
  0.1 away from the door handle.
\<close>

definition grasp_world :: world where
  "grasp_world = standing_world (2, 0, 0) (2.9, 0, 0) (3, 0, 0) 0 []"

text \<open>On the way to the door: the robot at \<open>(1, 0, 0)\<close>, its end effector at \<open>(2, 0, 0)\<close>.\<close>

definition reach_world :: world where
  "reach_world = standing_world (1, 0, 0) (2, 0, 0) (3, 0, 0) 0 []"

text \<open>
  The door task with a declared state dimension of 3, where the class assembles 7 numbers.
\<close>

definition mismatched_config :: config where
  "mismatched_config = door_config\<lparr>c_additional_states_dim := Some 3\<rparr>"

definition mismatched_env :: env where
  "mismatched_env =
     InteractiveNavigateEnv_init
       (snd (load (unloaded_env InteractiveNavigateEnv mismatched_config))) 3"

text \<open>
  A step of the door episode during which the base link of the robot (body 1, link
  \<open>-1\<close>) touches a wall (body 5) in every sub-tick.
\<close>

definition bump_world :: world where
  "bump_world =
     standing_world (1, 0, 0) (2, 0, 0) (3, 0, 0) 0
       [\<lparr>contactFlag = 0, bodyUniqueIdA = 1, bodyUniqueIdB = 5, linkIndexA = - 1,
         linkIndexB = 0\<rparr>]"

section \<open>Properties\<close>

subsection \<open>Angle wrapping\<close>

lemma wrap_angle_lower: "- pi \<le> wrap_angle x"
  using floor_divide_lower [of "pi * 2" "x + pi"]
  by (simp add: wrap_angle_def algebra_simps)

lemma wrap_angle_upper: "wrap_angle x < pi"
  using floor_divide_upper [of "pi * 2" "x + pi"]
  by (simp add: wrap_angle_def algebra_simps)

lemma wrap_angle_multiple: "\<exists>k::int. wrap_angle x = x - 2 * pi * of_int k"
  by (rule exI [of _ "\<lfloor>(x + pi) / (pi * 2)\<rfloor>"]) (simp add: wrap_angle_def)

lemma wrap_angle_pi: "wrap_angle pi = - pi"
  by (simp add: wrap_angle_def)

lemma wrap_to_pi_nth:
  assumes "list_all (\<lambda>i. i < length states) indices" and "i < length states"
  shows "wrap_to_pi states indices = Inr out \<Longrightarrow>
         out ! i = (if i \<in> set indices then wrap_angle (states ! i) else states ! i)"
  using assms by (auto simp: wrap_to_pi_def nth_enumerate_eq)

text \<open>
  C7, as the claim states it, fails: the angle \<open>\<pi>\<close> itself is sent to \<open>-\<pi>\<close>, which is
  outside \<open>(-\<pi>, \<pi>]\<close>.
\<close>

theorem wrap_to_pi_at_pi:
  "wrap_to_pi [pi] [0] = Inr [- pi] \<and> \<not> (- pi < (- pi :: real))"
  by (simp add: wrap_to_pi_def enumerate_eq_zip wrap_angle_pi)

text \<open>
  C7, amended: wrap\_to\_pi normalizes each selected angle to the half-open interval
  \<open>[-\<pi>, \<pi>)\<close>. When every selected index is a position of the array, the call returns an
  array of the same length; a selected entry differs from its input by an integer
  multiple of \<open>2\<pi>\<close> and lies in \<open>[-\<pi>, \<pi>)\<close>, and an entry that is not selected is
  unchanged.
\<close>

theorem wrap_to_pi_half_open:
  assumes "list_all (\<lambda>i. i < length states) indices"
  shows "\<exists>out. wrap_to_pi states indices = Inr out \<and> length out = length states \<and>
           (\<forall>i. i < length states \<and> i \<in> set indices \<longrightarrow>
              - pi \<le> out ! i \<and> out ! i < pi \<and>
              (\<exists>k::int. out ! i = states ! i - 2 * pi * of_int k)) \<and>
           (\<forall>i. i < length states \<and> i \<notin> set indices \<longrightarrow> out ! i = states ! i)"
proof -
  from assms obtain out where out: "wrap_to_pi states indices = Inr out"
    by (simp add: wrap_to_pi_def)
  then have len: "length out = length states"
    using assms by (auto simp: wrap_to_pi_def)
  have sel: "out ! i = wrap_angle (states ! i)"
    if "i < length states" "i \<in> set indices" for i
    using wrap_to_pi_nth [OF assms that(1) out] that(2) by simp
  have keep: "out ! i = states ! i" if "i < length states" "i \<notin> set indices" for i
    using wrap_to_pi_nth [OF assms that(1) out] that(2) by simp
  show ?thesis
    using out len sel keep wrap_angle_lower wrap_angle_upper wrap_angle_multiple
    by auto
qed

theorem wrap_to_pi_half_open_witness:
  "\<exists>out. wrap_to_pi [0, 4, 7] [1] = Inr out \<and> length out = 3 \<and>
     - pi \<le> out ! 1 \<and> out ! 1 < pi \<and> (\<exists>k::int. out ! 1 = 4 - 2 * pi * of_int k) \<and>
     out ! 0 = 0 \<and> out ! 2 = 7"
proof -
  have "list_all (\<lambda>i. i < length [0, 4, 7 :: real]) [1]"
    by simp
  from wrap_to_pi_half_open [OF this] obtain out where
    out: "wrap_to_pi [0, 4, 7] [1] = Inr out" "length out = length [0, 4, 7 :: real]"
    and sel: "\<forall>i. i < length [0, 4, 7 :: real] \<and> i \<in> set [1] \<longrightarrow>
       - pi \<le> out ! i \<and> out ! i < pi \<and>
       (\<exists>k::int. out ! i = [0, 4, 7] ! i - 2 * pi * of_int k)"
    and keep: "\<forall>i. i < length [0, 4, 7 :: real] \<and> i \<notin> set [1] \<longrightarrow>
       out ! i = [0, 4, 7] ! i"
    by blast
  from sel [rule_format, of 1] have s1:
    "- pi \<le> out ! 1 \<and> out ! 1 < pi \<and> (\<exists>k::int. out ! 1 = 4 - 2 * pi * of_int k)"
    by simp
  from keep [rule_format, of 0] have k0: "out ! 0 = 0"
    by simp
  from keep [rule_format, of 2] have k2: "out ! 2 = 7"
    by simp
  from out s1 k0 k2 show ?thesis
    by simp
qed

subsection \<open>The base environment raises\<close>











lemma pointgoal_env_simps:
  "env_class pointgoal_env = NavigateEnv"
  "c_task (config pointgoal_env) = Some ''pointgoal''"
  "additional_states_dim pointgoal_env = 3"
  "target_pos pointgoal_env = (4, 0, 0)"
  "dist_tol pointgoal_env = 0.2"
  "max_step pointgoal_env = 500"
  "outputs pointgoal_env = [''sensor'', ''bump'']"
  by (simp_all add: pointgoal_env_def load_def unloaded_env_def pointgoal_config_def
      empty_config_def config_get_def Let_def)



subsection \<open>Termination\<close>

lemma goal_distance_of_interest:
  "get_position_of_interest env w = Inr (Some pos) \<Longrightarrow>
   goal_distance env w = Inr (l2_distance (target_pos env) pos)"
  by (simp add: goal_distance_def)

lemma goal_distance_current_step [simp]:
  "goal_distance (env\<lparr>current_step := n\<rparr>) w = goal_distance env w"
  by (simp add: goal_distance_def get_position_of_interest_def split: option.splits)

lemma l2_norm_z: "l2_norm (0, 0, z) = \<bar>z\<bar>"
  by (simp add: l2_norm_def)

lemma l2_norm_x: "l2_norm (x, 0, 0) = \<bar>x\<bar>"
  by (simp add: l2_norm_def)

text \<open>
  C2: whenever the position of interest exists, \<^verbatim>\<open>get_termination\<close> counts the step
  and tries the three causes in the order success, fatal, timeout, the first that holds
  deciding alone. Success (goal distance under \<open>dist_tol\<close>) ends the episode with
  \<open>success = True\<close> whatever the height of the robot and the step count are, and without
  the \<^verbatim>\<open>death\<close> message of the fatal cause; the fatal cause (height above 0.1) is reached
  only without success, the timeout only without both. A step on which none holds
  returns not-done with an empty dictionary; a terminal step records the success flag and
  the episode length.
\<close>

theorem get_termination_priority:
  assumes "get_position_of_interest env w = Inr (Some pos)"
  shows
    "(l2_distance (target_pos env) pos < dist_tol env \<longrightarrow>
        get_termination env w =
          (Inr (True, [(''success'', InfoBool True),
                       (''episode_length'', InfoInt (current_step env + 1))]),
           env\<lparr>current_step := current_step env + 1\<rparr>)) \<and>
     (\<not> l2_distance (target_pos env) pos < dist_tol env \<and> vec3_z (robot_position w) > 0.1 \<longrightarrow>
        get_termination env w =
          (Inr (True, [(''success'', InfoBool False),
                       (''episode_length'', InfoInt (current_step env + 1))]),
           env\<lparr>current_step := current_step env + 1,
               trace := trace env @ [Print ''death'']\<rparr>)) \<and>
     (\<not> l2_distance (target_pos env) pos < dist_tol env \<and> \<not> vec3_z (robot_position w) > 0.1 \<and>
      max_step env \<le> enat (current_step env + 1) \<longrightarrow>
        get_termination env w =
          (Inr (True, [(''success'', InfoBool False),
                       (''episode_length'', InfoInt (current_step env + 1))]),
           env\<lparr>current_step := current_step env + 1\<rparr>)) \<and>
     (\<not> l2_distance (target_pos env) pos < dist_tol env \<and> \<not> vec3_z (robot_position w) > 0.1 \<and>
      \<not> max_step env \<le> enat (current_step env + 1) \<longrightarrow>
        get_termination env w = (Inr (False, []), env\<lparr>current_step := current_step env + 1\<rparr>))"
  using goal_distance_of_interest [OF assms]
  by (simp add: get_termination_def Let_def)

theorem get_termination_priority_witness:
  "get_termination pointgoal_env
     (standing_world (4, 0, 0.15) (0, 0, 0) (0, 0, 0) 0 []) =
     (Inr (True, [(''success'', InfoBool True), (''episode_length'', InfoInt 1)]),
      pointgoal_env\<lparr>current_step := 1\<rparr>) \<and>
   vec3_z (robot_position (standing_world (4, 0, 0.15) (0, 0, 0) (0, 0, 0) 0 [])) > 0.1"
proof -
  have poi: "get_position_of_interest pointgoal_env
      (standing_world (4, 0, 0.15) (0, 0, 0) (0, 0, 0) 0 []) = Inr (Some (4, 0, 0.15))"
    by (simp add: get_position_of_interest_def pointgoal_env_simps standing_world_def)
  have near: "l2_distance (target_pos pointgoal_env) (4, 0, 0.15) < dist_tol pointgoal_env"
    by (simp add: pointgoal_env_simps l2_distance_def vec3_sub_def l2_norm_z)
  have step0: "current_step pointgoal_env = 0"
    by (simp add: pointgoal_env_def load_def unloaded_env_def Let_def pointgoal_config_def
        empty_config_def)
  from get_termination_priority [OF poi] near step0 show ?thesis
    by (simp add: standing_world_def vec3_z_def)
qed

subsection \<open>Facts about the example objects\<close>

lemma door_env_simps:
  "env_class door_env = InteractiveNavigateEnv"
  "c_task (config door_env) = Some ''reaching''"
  "additional_states_dim door_env = 7"
  "auxiliary_sensor_dim door_env = 42"
  "normalize_observation door_env = False"
  "automatic_reset door_env = False"
  "simulator_loop door_env = 4"
  "target_pos door_env = (5, 5, 0)"
  "dist_tol door_env = 0.2"
  "max_step door_env = 500"
  "success_reward door_env = 10"
  "slack_reward door_env = - 0.01"
  "potential_reward_weight door_env = 10"
  "electricity_reward_weight door_env = 0"
  "stall_torque_reward_weight door_env = 0"
  "collision_reward_weight door_env = - 1"
  "collision_links door_env = {- 1}"
  "outputs door_env = [''sensor'', ''auxiliary_sensor'', ''bump'']"
  "door_body_id door_env = 3"
  "door_angle door_env = - (pi / 2)"
  "stage door_env = 0"
  "prev_stage door_env = 0"
  "cid door_env = None"
  "trace door_env = []"
  "current_step door_env = 0"
  by (simp_all add: door_env_def InteractiveNavigateEnv_init_def load_def unloaded_env_def
      door_config_def empty_config_def config_get_def Let_def)

lemma start_world_simps:
  "robot_position start_world = (0, 0, 0)"
  "robot_rpy start_world = (0, 0, 0)"
  "robot_end_effector_position start_world = (1, 0, 0)"
  "rotate_vector_3d start_world = (\<lambda>v r p y. v)"
  "joint_speed_torque start_world = [(0, 0), (0, 0)]"
  "robot_calc_state start_world = replicate 46 0"
  "has_scan_link start_world = False"
  "door_joint_state start_world = 0"
  "door_handle_link_pos start_world = (3, 0, 0)"
  "jr_end_effector_link_pos start_world = (1, 0, 0)"
  "contact_points start_world = (\<lambda>tick. [])"
  by (simp_all add: start_world_def standing_world_def)

lemma wrap_angle_0: "wrap_angle 0 = 0"
  by (simp add: wrap_angle_def)

lemma door_reset:
  "\<exists>obs. reset door_env start_input =
     Some (Inr obs,
           door_env\<lparr>trace := [ResetJointState 0 0], stage := 0, prev_stage := 0,
                    initial_pos := (0, 0, 0), target_pos := (- 100, - 100, 0),
                    initial_potential := 2, normalized_potential := 1,
                    current_step := 0\<rparr>)"
  by (simp add: reset_def InteractiveNavigateEnv_reset_def NavigateEnv_reset_def
      reset_interactive_objects_def reset_initial_and_target_pos_def
      InteractiveNavigateEnv_reset_initial_and_target_pos_def start_input_def
      door_env_simps Let_def get_potential_def InteractiveNavigateEnv_get_potential_def
      stage_get_to_door_handle_def start_world_simps l2_distance_def vec3_sub_def l2_norm_x
      get_state_def InteractiveNavigateEnv_get_state_def NavigateEnv_get_state_def
      set_channel_def
      get_additional_states_def InteractiveNavigateEnv_get_additional_states_def
      get_auxiliary_sensor_def InteractiveNavigateEnv_get_auxiliary_sensor_def
      stage_open_door_def vec3_list_def wrap_to_pi_def enumerate_eq_zip wrap_angle_0)

lemma door_started_eq:
  "door_started =
     door_env\<lparr>trace := [ResetJointState 0 0], stage := 0, prev_stage := 0,
              initial_pos := (0, 0, 0), target_pos := (- 100, - 100, 0),
              initial_potential := 2, normalized_potential := 1, current_step := 0\<rparr>"
  using door_reset by (auto simp: door_started_def)

lemma door_started_simps:
  "env_class door_started = InteractiveNavigateEnv"
  "c_task (config door_started) = Some ''reaching''"
  "additional_states_dim door_started = 7"
  "auxiliary_sensor_dim door_started = 42"
  "normalize_observation door_started = False"
  "automatic_reset door_started = False"
  "simulator_loop door_started = 4"
  "target_pos door_started = (- 100, - 100, 0)"
  "dist_tol door_started = 0.2"
  "max_step door_started = 500"
  "success_reward door_started = 10"
  "slack_reward door_started = - 0.01"
  "potential_reward_weight door_started = 10"
  "electricity_reward_weight door_started = 0"
  "stall_torque_reward_weight door_started = 0"
  "collision_reward_weight door_started = - 1"
  "collision_links door_started = {- 1}"
  "outputs door_started = [''sensor'', ''auxiliary_sensor'', ''bump'']"
  "door_body_id door_started = 3"
  "door_angle door_started = - (pi / 2)"
  "stage door_started = 0"
  "prev_stage door_started = 0"
  "cid door_started = None"
  "trace door_started = [ResetJointState 0 0]"
  "current_step door_started = 0"
  "initial_potential door_started = 2"
  "normalized_potential door_started = 1"
  by (simp_all add: door_started_eq door_env_simps)

lemma pointgoal_reset:
  "reset pointgoal_env start_input =
     Some (Inl TypeError,
           pointgoal_env\<lparr>initial_potential := 4, normalized_potential := 1,
                         current_step := 0\<rparr>)"
  by (simp add: reset_def NavigateEnv_reset_def reset_initial_and_target_pos_def
      NavigateEnv_reset_initial_and_target_pos_def start_input_def pointgoal_env_simps
      get_potential_def NavigateEnv_get_potential_def goal_distance_def
      get_position_of_interest_def start_world_simps l2_distance_def vec3_sub_def l2_norm_x
      Let_def get_state_def NavigateEnv_get_state_def get_additional_states_def
      NavigateEnv_get_additional_states_def vec3_list_def get_auxiliary_sensor_def
      NavigateEnv_get_auxiliary_sensor_def)

lemma pointgoal_started_eq:
  "pointgoal_started =
     pointgoal_env\<lparr>initial_potential := 4, normalized_potential := 1, current_step := 0\<rparr>"
  by (simp add: pointgoal_started_def pointgoal_reset)

lemma pointgoal_started_simps:
  "env_class pointgoal_started = NavigateEnv"
  "c_task (config pointgoal_started) = Some ''pointgoal''"
  "target_pos pointgoal_started = (4, 0, 0)"
  "dist_tol pointgoal_started = 0.2"
  "initial_potential pointgoal_started = 4"
  "normalized_potential pointgoal_started = 1"
  "current_step pointgoal_started = 0"
  by (simp_all add: pointgoal_started_eq pointgoal_env_simps)

subsection \<open>The terms of the reward\<close>

lemma goal_distance_tracker:
  "goal_distance (env\<lparr>normalized_potential := x\<rparr>) w = goal_distance env w"
  "goal_distance (env\<lparr>initial_potential := y\<rparr>) w = goal_distance env w"
  by (simp_all add: goal_distance_def get_position_of_interest_def split: option.splits)

lemma link_ids_off_handle_frame:
  "door_body_id env' = door_body_id env \<Longrightarrow>
   link_ids_off_handle env' links = link_ids_off_handle env links"
  by (induction env' links rule: link_ids_off_handle.induct) (simp_all split: sum.splits)

lemma link_ids_off_handle_tracker:
  "link_ids_off_handle (env\<lparr>normalized_potential := x\<rparr>) links =
     link_ids_off_handle env links"
  "link_ids_off_handle (env\<lparr>initial_potential := y\<rparr>) links =
     link_ids_off_handle env links"
  by (rule link_ids_off_handle_frame, simp)+

lemma NavigateEnv_get_reward_sum:
  assumes "get_potential env w = Inr pot" and "link_ids links = Inr ids"
    and "goal_distance env w = Inr d"
  shows "NavigateEnv_get_reward env w links =
           (Inr (slack_reward env + shaping_term env pot +
                 0 * electricity_reward_weight env + 0 * stall_torque_reward_weight env +
                 collision_term env ids + success_bonus env d),
            env\<lparr>normalized_potential := pot / initial_potential env\<rparr>)"
  using assms
  by (simp add: NavigateEnv_get_reward_def Let_def shaping_term_def collision_term_def
      success_bonus_def goal_distance_tracker)

lemma InteractiveNavigateEnv_get_reward_transition:
  assumes "get_potential env w = Inr pot" and "link_ids_off_handle env links = Inr ids"
    and "goal_distance env w = Inr d" and "stage env \<noteq> prev_stage env"
  shows "InteractiveNavigateEnv_get_reward env w links =
           (Inr (success_reward env / 2 +
                 electricity_term env w + stall_torque_term env w +
                 collision_term env ids + success_bonus env d - failure_penalty env w),
            env\<lparr>initial_potential := pot, normalized_potential := 1\<rparr>)"
  using assms
  by (simp add: InteractiveNavigateEnv_get_reward_def Let_def electricity_term_def
      stall_torque_term_def collision_term_def success_bonus_def failure_penalty_def
      goal_distance_tracker link_ids_off_handle_tracker)

lemma InteractiveNavigateEnv_get_reward_shaping:
  assumes "get_potential env w = Inr pot" and "link_ids_off_handle env links = Inr ids"
    and "goal_distance env w = Inr d" and "stage env = prev_stage env"
  shows "InteractiveNavigateEnv_get_reward env w links =
           (Inr (shaping_term env pot +
                 electricity_term env w + stall_torque_term env w +
                 collision_term env ids + success_bonus env d - failure_penalty env w),
            env\<lparr>normalized_potential := pot / initial_potential env\<rparr>)"
  using assms
  by (simp add: InteractiveNavigateEnv_get_reward_def Let_def electricity_term_def
      stall_torque_term_def collision_term_def success_bonus_def failure_penalty_def
      shaping_term_def goal_distance_tracker link_ids_off_handle_tracker)

subsection \<open>The composition of the reward\<close>

lemma l2_norm_y: "l2_norm (0, y, 0) = \<bar>y\<bar>"
  by (simp add: l2_norm_def)

lemma l2_norm_ge_x: "\<bar>x\<bar> \<le> l2_norm (x, y, z)"
proof -
  have "sqrt (x * x) \<le> sqrt (x * x + y * y + z * z)"
    by (rule real_sqrt_le_mono) simp
  then show ?thesis
    by (simp add: l2_norm_def)
qed

lemma mean_zeros: "mean [0, 0] = 0"
  by (simp add: mean_def)

lemma get_reward_base:
  "env_class env \<noteq> InteractiveNavigateEnv \<Longrightarrow>
   get_reward env w links = NavigateEnv_get_reward env w links"
  by (cases "env_class env") (simp_all add: get_reward_def)

lemma get_reward_interactive:
  "env_class env = InteractiveNavigateEnv \<Longrightarrow>
   get_reward env w links = InteractiveNavigateEnv_get_reward env w links"
  by (simp add: get_reward_def)

text \<open>
  C9, amended: the reward that \<^verbatim>\<open>get_reward\<close> returns is a sum of terms that depends on the
  variant. In the base variant and its random-placement subclass it is the slack term,
  the shaping term, an energy and a stall-torque term that are both zero times their
  weight, the collision term and the success bonus. In the multi-stage variant it is the
  shaping term (on a step with a stage transition half the success reward instead), the
  clipped energy and stall-torque terms, the collision term without the contacts with the
  door handle, the success bonus, less the failure penalty; the slack term is not part of
  it.
\<close>

theorem reward_composition:
  assumes "get_potential env w = Inr pot" and "goal_distance env w = Inr d"
  shows
    "(env_class env \<noteq> InteractiveNavigateEnv \<and> link_ids links = Inr ids \<longrightarrow>
        get_reward env w links =
          (Inr (slack_reward env + shaping_term env pot +
                0 * electricity_reward_weight env + 0 * stall_torque_reward_weight env +
                collision_term env ids + success_bonus env d),
           env\<lparr>normalized_potential := pot / initial_potential env\<rparr>)) \<and>
     (env_class env = InteractiveNavigateEnv \<and> link_ids_off_handle env links = Inr ids \<and>
      stage env = prev_stage env \<longrightarrow>
        get_reward env w links =
          (Inr (shaping_term env pot + electricity_term env w + stall_torque_term env w +
                collision_term env ids + success_bonus env d - failure_penalty env w),
           env\<lparr>normalized_potential := pot / initial_potential env\<rparr>)) \<and>
     (env_class env = InteractiveNavigateEnv \<and> link_ids_off_handle env links = Inr ids \<and>
      stage env \<noteq> prev_stage env \<longrightarrow>
        get_reward env w links =
          (Inr (success_reward env / 2 + electricity_term env w + stall_torque_term env w +
                collision_term env ids + success_bonus env d - failure_penalty env w),
           env\<lparr>initial_potential := pot, normalized_potential := 1\<rparr>))"
  using get_reward_base [of env w links] get_reward_interactive [of env w links]
    NavigateEnv_get_reward_sum [OF assms(1) _ assms(2)]
    InteractiveNavigateEnv_get_reward_shaping [OF assms(1) _ assms(2)]
    InteractiveNavigateEnv_get_reward_transition [OF assms(1) _ assms(2)]
  by simp

lemma door_started_potential:
  "get_potential door_started start_world = Inr 2"
  by (simp add: get_potential_def InteractiveNavigateEnv_get_potential_def door_started_simps
      stage_get_to_door_handle_def start_world_simps l2_distance_def vec3_sub_def l2_norm_x)

lemma door_started_far:
  "\<not> l2_distance (- 100, - 100, 0) (1, 0, 0) < 0.2"
  using l2_norm_ge_x [of "- 101" "- 100" 0] by (simp add: l2_distance_def vec3_sub_def)

lemma door_started_goal_distance:
  "goal_distance door_started start_world = Inr (l2_distance (- 100, - 100, 0) (1, 0, 0))"
  by (simp add: goal_distance_def get_position_of_interest_def door_started_simps
      start_world_simps)

lemma door_started_terms:
  "shaping_term door_started 2 = 0"
  "electricity_term door_started start_world = 0"
  "stall_torque_term door_started start_world = 0"
  "collision_term door_started [] = 0"
  "success_bonus door_started (l2_distance (- 100, - 100, 0) (1, 0, 0)) = 0"
  "failure_penalty door_started start_world = 0"
  using door_started_far
  by (simp_all add: shaping_term_def electricity_term_def stall_torque_term_def
      collision_term_def success_bonus_def failure_penalty_def door_started_simps
      start_world_simps mean_zeros clip_def vec3_z_def)

text \<open>
  C9, as the claim states it, fails in the multi-stage variant, whose \<^verbatim>\<open>get_reward\<close> starts
  from \<^verbatim>\<open>reward = 0.0\<close>: at the start of the door episode the reward is 0, while the
  sum of the claim, with the slack term, is \<open>-0.01\<close>.
\<close>

theorem interactive_reward_without_slack:
  "get_reward door_started start_world [] = (Inr 0, door_started) \<and>
   slack_reward door_started + shaping_term door_started 2 +
   electricity_term door_started start_world + stall_torque_term door_started start_world +
   collision_term door_started [] +
   success_bonus door_started (l2_distance (- 100, - 100, 0) (1, 0, 0)) -
   failure_penalty door_started start_world = - 0.01"
proof -
  have "get_reward door_started start_world [] =
          (Inr 0, door_started\<lparr>normalized_potential := 2 / initial_potential door_started\<rparr>)"
    using InteractiveNavigateEnv_get_reward_shaping [OF door_started_potential _
        door_started_goal_distance, of "[]" "[]"]
    by (simp add: get_reward_interactive door_started_simps door_started_terms)
  moreover have "door_started\<lparr>normalized_potential := 2 / initial_potential door_started\<rparr> =
      door_started"
    by (simp add: door_started_simps door_started_eq)
  ultimately show ?thesis
    by (simp add: door_started_terms door_started_simps)
qed

lemma pointgoal_started_rewards:
  "slack_reward pointgoal_started = - 0.01"
  "success_reward pointgoal_started = 10"
  "potential_reward_weight pointgoal_started = 10"
  "electricity_reward_weight pointgoal_started = 0"
  "stall_torque_reward_weight pointgoal_started = 0"
  "collision_reward_weight pointgoal_started = 0"
  "collision_links pointgoal_started = {- 1}"
  by (simp_all add: pointgoal_started_eq pointgoal_env_def load_def unloaded_env_def
      pointgoal_config_def empty_config_def config_get_def Let_def)

lemma pointgoal_started_potential:
  "get_potential pointgoal_started (standing_world (x, 0, 0) hand handle angle cs) =
     Inr \<bar>4 - x\<bar>"
  "goal_distance pointgoal_started (standing_world (x, 0, 0) hand handle angle cs) =
     Inr \<bar>4 - x\<bar>"
  by (simp_all add: get_potential_def NavigateEnv_get_potential_def goal_distance_def
      get_position_of_interest_def pointgoal_started_simps standing_world_def
      l2_distance_def vec3_sub_def l2_norm_x)

theorem reward_composition_witness:
  "get_reward pointgoal_started (standing_world (1, 0, 0) (2, 0, 0) (3, 0, 0) 0 []) [] =
     (Inr 2.49, pointgoal_started\<lparr>normalized_potential := 3 / 4\<rparr>) \<and>
   get_reward door_started (standing_world (1, 0, 0) (2, 0, 0) (3, 0, 0) 0 []) [] =
     (Inr 5, door_started\<lparr>normalized_potential := 1 / 2\<rparr>)"
proof -
  let ?w = "standing_world (1, 0, 0) (2, 0, 0) (3, 0, 0) 0 []"
  have p: "get_potential pointgoal_started ?w = Inr 3"
    and g: "goal_distance pointgoal_started ?w = Inr 3"
    using pointgoal_started_potential [of 1] by simp_all
  have a: "get_reward pointgoal_started ?w [] =
             (Inr 2.49, pointgoal_started\<lparr>normalized_potential := 3 / 4\<rparr>)"
    using reward_composition [OF p g, of "[]" "[]"]
    by (simp add: pointgoal_started_simps pointgoal_started_rewards shaping_term_def
        collision_term_def success_bonus_def)
  have p': "get_potential door_started ?w = Inr 1"
    by (simp add: get_potential_def InteractiveNavigateEnv_get_potential_def
        door_started_simps stage_get_to_door_handle_def standing_world_def l2_distance_def
        vec3_sub_def l2_norm_x)
  have g': "goal_distance door_started ?w = Inr (l2_distance (- 100, - 100, 0) (2, 0, 0))"
    by (simp add: goal_distance_def get_position_of_interest_def door_started_simps
        standing_world_def)
  have far: "\<not> l2_distance (- 100, - 100, 0) (2, 0, 0) < 0.2"
    using l2_norm_ge_x [of "- 102" "- 100" 0] by (simp add: l2_distance_def vec3_sub_def)
  have b: "get_reward door_started ?w [] =
             (Inr 5, door_started\<lparr>normalized_potential := 1 / 2\<rparr>)"
    using reward_composition [OF p' g', of "[]" "[]"] far
    by (simp add: door_started_simps shaping_term_def electricity_term_def
        stall_torque_term_def collision_term_def success_bonus_def failure_penalty_def
        standing_world_def mean_zeros clip_def vec3_z_def)
  from a b show ?thesis by simp
qed

subsection \<open>Stage transitions and the reward\<close>

lemma stage_transition_frame:
  assumes "stage_transition env0 pre = (r, env)"
  shows "env_class env = env_class env0" and "config env = config env0"
    and "target_pos env = target_pos env0" and "door_body_id env = door_body_id env0"
    and "automatic_reset env = automatic_reset env0"
    and "prev_stage env = stage env0"
  using assms
  by (auto simp: stage_transition_def Let_def split: if_splits option.splits)

lemma stage_transition_stage:
  assumes "stage_transition env0 pre = (r, env)"
  shows "stage env = stage env0 \<or>
         (r = Inr () \<and> stage env0 = stage_get_to_door_handle \<and> stage env = stage_open_door) \<or>
         (r = Inr () \<and> stage env0 = stage_get_to_door_handle \<and>
            stage env = stage_get_to_target_pos) \<or>
         (r = Inr () \<and> stage env0 = stage_open_door \<and> stage env = stage_get_to_target_pos)"
  using assms
  by (auto simp: stage_transition_def Let_def stage_get_to_door_handle_def stage_open_door_def
      stage_get_to_target_pos_def split: if_splits option.splits)

lemma NavigateEnv_step_reward:
  assumes "NavigateEnv_step env action w rin = Some (Inr (obs, r, done, info), env')"
  shows "\<exists>env2. get_reward env w (run_simulation env w) = (Inr r, env2)"
  using assms
  by (auto simp: NavigateEnv_step_def Let_def
      split: sum.splits prod.splits option.splits if_splits)

lemma InteractiveNavigateEnv_step_reward:
  assumes "env_class env0 = InteractiveNavigateEnv"
    and "step env0 action pre w rin = Some (Inr (obs, r, done, info), env')"
  shows "\<exists>env env2. stage_transition env0 pre = (Inr (), env) \<and>
           get_reward env w (run_simulation env w) = (Inr r, env2)"
  using assms NavigateEnv_step_reward
  by (auto simp: step_def InteractiveNavigateEnv_step_def split: sum.splits prod.splits)

lemma transition_potential:
  assumes "env_class env0 = InteractiveNavigateEnv"
    and "stage_transition env0 pre = (Inr (), env)"
    and "stage env \<noteq> stage env0"
  shows "get_potential env w =
           Inr (if stage env = stage_open_door then \<bar>door_joint_state w + pi\<bar>
                else l2_distance (target_pos env) (robot_position w))"
  using stage_transition_stage [OF assms(2)] stage_transition_frame(1) [OF assms(2)] assms(1,3)
  by (auto simp: get_potential_def InteractiveNavigateEnv_get_potential_def
      stage_get_to_door_handle_def stage_open_door_def stage_get_to_target_pos_def)

text \<open>
  C3: on a step of the multi-stage variant in which the stage machine at the head of
  \<^verbatim>\<open>step\<close> changed the stage, \<^verbatim>\<open>get_reward\<close> sets \<open>initial_potential\<close> to the potential
  of the new stage (the door angle offset in stage open\_door, the distance of the robot
  to the goal in stage get\_to\_target\_pos) and \<open>normalized_potential\<close> to 1, and the
  reward of the step is half the success reward plus the energy, stall-torque, collision,
  success and failure terms: the shaping term is not part of it.
\<close>

theorem stage_transition_rebaseline:
  assumes "env_class env0 = InteractiveNavigateEnv"
    and "stage_transition env0 pre = (Inr (), env)"
    and "stage env \<noteq> stage env0"
    and "link_ids_off_handle env (run_simulation env w) = Inr ids"
    and "goal_distance env w = Inr d"
  shows
    "get_reward env w (run_simulation env w) =
       (Inr (success_reward env / 2 + electricity_term env w + stall_torque_term env w +
             collision_term env ids + success_bonus env d - failure_penalty env w),
        env\<lparr>initial_potential :=
              (if stage env = stage_open_door then \<bar>door_joint_state w + pi\<bar>
               else l2_distance (target_pos env) (robot_position w)),
            normalized_potential := 1\<rparr>) \<and>
     (\<forall>obs r done info env'.
        step env0 action pre w rin = Some (Inr (obs, r, done, info), env') \<longrightarrow>
        r = success_reward env / 2 + electricity_term env w + stall_torque_term env w +
            collision_term env ids + success_bonus env d - failure_penalty env w)"
proof -
  have cls: "env_class env = InteractiveNavigateEnv"
    using stage_transition_frame(1) [OF assms(2)] assms(1) by simp
  have changed: "stage env \<noteq> prev_stage env"
    using stage_transition_frame(6) [OF assms(2)] assms(3) by simp
  have reward: "get_reward env w (run_simulation env w) =
       (Inr (success_reward env / 2 + electricity_term env w + stall_torque_term env w +
             collision_term env ids + success_bonus env d - failure_penalty env w),
        env\<lparr>initial_potential :=
              (if stage env = stage_open_door then \<bar>door_joint_state w + pi\<bar>
               else l2_distance (target_pos env) (robot_position w)),
            normalized_potential := 1\<rparr>)"
    using InteractiveNavigateEnv_get_reward_transition
      [OF transition_potential [OF assms(1,2,3)] assms(4,5) changed]
    by (simp add: get_reward_interactive [OF cls])
  have "r = success_reward env / 2 + electricity_term env w + stall_torque_term env w +
            collision_term env ids + success_bonus env d - failure_penalty env w"
    if "step env0 action pre w rin = Some (Inr (obs, r, fin, info), env')"
    for obs r fin info env'
    using InteractiveNavigateEnv_step_reward [OF assms(1) that] assms(2) reward by auto
  with reward show ?thesis by blast
qed

lemma grasp_world_simps:
  "robot_position grasp_world = (2, 0, 0)"
  "robot_rpy grasp_world = (0, 0, 0)"
  "robot_end_effector_position grasp_world = (2.9, 0, 0)"
  "rotate_vector_3d grasp_world = (\<lambda>v r p y. v)"
  "joint_speed_torque grasp_world = [(0, 0), (0, 0)]"
  "robot_calc_state grasp_world = replicate 46 0"
  "has_scan_link grasp_world = False"
  "door_joint_state grasp_world = 0"
  "door_handle_link_pos grasp_world = (3, 0, 0)"
  "jr_end_effector_link_pos grasp_world = (2.9, 0, 0)"
  "contact_points grasp_world = (\<lambda>tick. [])"
  "created_constraint grasp_world = 1"
  by (simp_all add: grasp_world_def standing_world_def)

lemma run_simulation_no_contact:
  "contact_points w = (\<lambda>tick. []) \<Longrightarrow> run_simulation env w = []"
  by (simp add: run_simulation_def)

lemma door_grasp:
  "stage_transition door_started grasp_world =
     (Inr (),
      door_started\<lparr>prev_stage := 0,
                   trace := [ResetJointState 0 0, CreateConstraint 1, ChangeConstraint 1 500,
                             Print ''stage open_door''],
                   cid := Some 1, stage := 1\<rparr>)"
  using pi_gt_zero
  by (simp add: stage_transition_def Let_def door_started_simps grasp_world_simps
      stage_get_to_door_handle_def stage_open_door_def vec3_sub_def l2_norm_x)

theorem stage_transition_rebaseline_witness:
  "\<exists>env. stage_transition door_started grasp_world = (Inr (), env) \<and> stage env = 1 \<and>
     stage door_started = 0 \<and>
     get_reward env grasp_world (run_simulation env grasp_world) =
       (Inr 5, env\<lparr>initial_potential := pi, normalized_potential := 1\<rparr>)"
proof -
  let ?env = "door_started\<lparr>prev_stage := 0,
                   trace := [ResetJointState 0 0, CreateConstraint 1, ChangeConstraint 1 500,
                             Print ''stage open_door''],
                   cid := Some 1, stage := 1\<rparr>"
  have ids: "link_ids_off_handle ?env (run_simulation ?env grasp_world) = Inr []"
    by (simp add: run_simulation_no_contact grasp_world_simps)
  have g: "goal_distance ?env grasp_world =
             Inr (l2_distance (- 100, - 100, 0) (2.9, 0, 0))"
    by (simp add: goal_distance_def get_position_of_interest_def door_started_simps
        grasp_world_simps)
  have far: "\<not> l2_distance (- 100, - 100, 0) (2.9, 0, 0) < 0.2"
    using l2_norm_ge_x [of "- 102.9" "- 100" 0] by (simp add: l2_distance_def vec3_sub_def)
  have "get_reward ?env grasp_world (run_simulation ?env grasp_world) =
          (Inr 5, ?env\<lparr>initial_potential := pi, normalized_potential := 1\<rparr>)"
    using stage_transition_rebaseline [OF door_started_simps(1) door_grasp _ ids g] far pi_gt_zero
    by (simp add: door_started_simps grasp_world_simps electricity_term_def
        stall_torque_term_def collision_term_def success_bonus_def failure_penalty_def
        mean_zeros clip_def vec3_z_def stage_open_door_def)
  with door_grasp show ?thesis
    by (simp add: door_started_simps)
qed

subsection \<open>The shaping term\<close>

lemma get_potential_tracker:
  "get_potential (env\<lparr>normalized_potential := x\<rparr>) w = get_potential env w"
  "get_potential (env\<lparr>initial_potential := y\<rparr>) w = get_potential env w"
  by (simp_all add: get_potential_def NavigateEnv_get_potential_def goal_distance_tracker
      InteractiveNavigateEnv_get_potential_def split: env_class.splits)

lemma NavigateEnv_get_reward_tracker:
  assumes "NavigateEnv_get_reward env0 w links = (Inr r, env1)"
  shows "\<exists>p. get_potential env0 w = Inr p \<and>
           env1 = env0\<lparr>normalized_potential := p / initial_potential env0\<rparr>"
proof (cases "get_potential env0 w")
  case (Inl e)
  with assms show ?thesis
    by (simp add: NavigateEnv_get_reward_def)
next
  case (Inr p)
  then have "snd (NavigateEnv_get_reward env0 w links) =
      env0\<lparr>normalized_potential := p / initial_potential env0\<rparr>"
    by (simp add: NavigateEnv_get_reward_def Let_def split: sum.splits)
  with assms Inr show ?thesis
    by simp
qed

lemma InteractiveNavigateEnv_get_reward_tracker:
  assumes "InteractiveNavigateEnv_get_reward env0 w links = (Inr r, env1)"
  shows "\<exists>p. get_potential env0 w = Inr p \<and>
           env1 = (if stage env0 \<noteq> prev_stage env0
                   then env0\<lparr>initial_potential := p, normalized_potential := 1\<rparr>
                   else env0\<lparr>normalized_potential := p / initial_potential env0\<rparr>)"
proof (cases "get_potential env0 w")
  case (Inl e)
  with assms show ?thesis
    by (simp add: InteractiveNavigateEnv_get_reward_def)
next
  case (Inr p)
  have "snd (InteractiveNavigateEnv_get_reward env0 w links) =
      (if stage env0 \<noteq> prev_stage env0
       then env0\<lparr>initial_potential := p, normalized_potential := 1\<rparr>
       else env0\<lparr>normalized_potential := p / initial_potential env0\<rparr>)"
  proof (cases "stage env0 \<noteq> prev_stage env0")
    case True
    with Inr show ?thesis
      by (simp add: InteractiveNavigateEnv_get_reward_def Let_def split: sum.splits)
  next
    case False
    with Inr show ?thesis
      by (simp add: InteractiveNavigateEnv_get_reward_def Let_def split: sum.splits)
  qed
  with assms Inr show ?thesis
    by simp
qed

lemma get_reward_normalized:
  assumes "get_reward env0 w links = (Inr r, env1)"
    and "get_potential env1 w = Inr p"
    and "initial_potential env1 \<noteq> 0"
  shows "normalized_potential env1 = p / initial_potential env1"
proof (cases "env_class env0 = InteractiveNavigateEnv")
  case True
  with assms(1) have "InteractiveNavigateEnv_get_reward env0 w links = (Inr r, env1)"
    by (simp add: get_reward_interactive)
  from InteractiveNavigateEnv_get_reward_tracker [OF this] obtain q where
    q: "get_potential env0 w = Inr q"
    and env1: "env1 = (if stage env0 \<noteq> prev_stage env0
                   then env0\<lparr>initial_potential := q, normalized_potential := 1\<rparr>
                   else env0\<lparr>normalized_potential := q / initial_potential env0\<rparr>)"
    by blast
  show ?thesis
  proof (cases "stage env0 \<noteq> prev_stage env0")
    case True
    with env1 have e: "env1 = env0\<lparr>initial_potential := q, normalized_potential := 1\<rparr>"
      by simp
    with assms(2) q have "p = q"
      by (simp add: get_potential_tracker)
    with e assms(3) show ?thesis
      by simp
  next
    case False
    with env1 have e: "env1 = env0\<lparr>normalized_potential := q / initial_potential env0\<rparr>"
      by simp
    with assms(2) q have "p = q"
      by (simp add: get_potential_tracker)
    with e show ?thesis
      by simp
  qed
next
  case False
  with assms(1) have "NavigateEnv_get_reward env0 w links = (Inr r, env1)"
    by (simp add: get_reward_base)
  from NavigateEnv_get_reward_tracker [OF this] obtain q where
    q: "get_potential env0 w = Inr q"
    and e: "env1 = env0\<lparr>normalized_potential := q / initial_potential env0\<rparr>"
    by blast
  with assms(2) have "p = q"
    by (simp add: get_potential_tracker)
  with e show ?thesis
    by simp
qed

lemma door_started_unchanged:
  "door_started\<lparr>normalized_potential := 1\<rparr> = door_started"
  by (simp add: door_started_eq)

text \<open>
  C8, as the claim states it, fails. In the first stage of the door task the end effector
  (the position of interest) moves from \<open>(1, 0, 0)\<close> to \<open>(0.5, 0, 0)\<close>: closer to the goal
  but away from the door handle, and the shaping term of the later step is \<open>-2.5\<close>. In
  the base variant a configured weight of 0 makes the term 0 whatever the distances are.
\<close>

theorem shaping_term_not_positive:
  "get_reward door_started start_world [] = (Inr 0, door_started) \<and>
   stage door_started = prev_stage door_started \<and>
   goal_distance door_started start_world = Inr (l2_distance (- 100, - 100, 0) (1, 0, 0)) \<and>
   goal_distance door_started (standing_world (0, 0, 0) (0.5, 0, 0) (3, 0, 0) 0 []) =
     Inr (l2_distance (- 100, - 100, 0) (0.5, 0, 0)) \<and>
   l2_distance (- 100, - 100, 0) (0.5, 0, 0) < l2_distance (- 100, - 100, 0) (1, 0, 0) \<and>
   get_reward door_started (standing_world (0, 0, 0) (0.5, 0, 0) (3, 0, 0) 0 []) [] =
     (Inr (- 2.5), door_started\<lparr>normalized_potential := 1.25\<rparr>) \<and>
   shaping_term door_started 2.5 = - 2.5 \<and>
   shaping_term (pointgoal_started\<lparr>potential_reward_weight := 0\<rparr>) 2 = 0"
proof -
  let ?w = "standing_world (0, 0, 0) (0.5, 0, 0) (3, 0, 0) 0 []"
  have first: "get_reward door_started start_world [] = (Inr 0, door_started)"
    using InteractiveNavigateEnv_get_reward_shaping [OF door_started_potential _
        door_started_goal_distance, of "[]" "[]"]
    by (simp add: get_reward_interactive door_started_simps door_started_terms
        door_started_unchanged)
  have p: "get_potential door_started ?w = Inr 2.5"
    by (simp add: get_potential_def InteractiveNavigateEnv_get_potential_def
        door_started_simps stage_get_to_door_handle_def standing_world_def l2_distance_def
        vec3_sub_def l2_norm_x)
  have g: "goal_distance door_started ?w = Inr (l2_distance (- 100, - 100, 0) (0.5, 0, 0))"
    by (simp add: goal_distance_def get_position_of_interest_def door_started_simps
        standing_world_def)
  have far: "\<not> l2_distance (- 100, - 100, 0) (0.5, 0, 0) < 0.2"
    using l2_norm_ge_x [of "- 100.5" "- 100" 0] by (simp add: l2_distance_def vec3_sub_def)
  have closer: "l2_distance (- 100, - 100, 0) (0.5, 0, 0) < l2_distance (- 100, - 100, 0) (1, 0, 0)"
    by (simp add: l2_distance_def vec3_sub_def l2_norm_def)
  have sh: "shaping_term door_started 2.5 = - 2.5"
    by (simp add: shaping_term_def door_started_simps)
  have second: "get_reward door_started ?w [] =
      (Inr (- 2.5), door_started\<lparr>normalized_potential := 1.25\<rparr>)"
    using InteractiveNavigateEnv_get_reward_shaping [OF p _ g, of "[]" "[]"] far sh
    by (simp add: get_reward_interactive door_started_simps electricity_term_def
        stall_torque_term_def collision_term_def success_bonus_def failure_penalty_def
        standing_world_def mean_zeros clip_def vec3_z_def)
  have zero: "shaping_term (pointgoal_started\<lparr>potential_reward_weight := 0\<rparr>) 2 = 0"
    by (simp add: shaping_term_def)
  from first door_started_goal_distance g closer second sh zero show ?thesis
    by (simp add: door_started_simps)
qed

subsection \<open>The stage machine\<close>

lemma NavigateEnv_get_reward_frame:
  "stage (snd (NavigateEnv_get_reward env w links)) = stage env \<and>
   prev_stage (snd (NavigateEnv_get_reward env w links)) = prev_stage env \<and>
   cid (snd (NavigateEnv_get_reward env w links)) = cid env \<and>
   automatic_reset (snd (NavigateEnv_get_reward env w links)) = automatic_reset env \<and>
   env_class (snd (NavigateEnv_get_reward env w links)) = env_class env"
  by (simp add: NavigateEnv_get_reward_def Let_def split: sum.splits)

lemma InteractiveNavigateEnv_get_reward_frame:
  "stage (snd (InteractiveNavigateEnv_get_reward env w links)) = stage env \<and>
   prev_stage (snd (InteractiveNavigateEnv_get_reward env w links)) = prev_stage env \<and>
   cid (snd (InteractiveNavigateEnv_get_reward env w links)) = cid env \<and>
   automatic_reset (snd (InteractiveNavigateEnv_get_reward env w links)) =
     automatic_reset env \<and>
   env_class (snd (InteractiveNavigateEnv_get_reward env w links)) = env_class env"
proof (cases "stage env \<noteq> prev_stage env")
  case True
  then show ?thesis
    by (simp add: InteractiveNavigateEnv_get_reward_def Let_def split: sum.splits)
next
  case False
  then show ?thesis
    by (simp add: InteractiveNavigateEnv_get_reward_def Let_def split: sum.splits)
qed

lemma get_reward_frame:
  "stage (snd (get_reward env w links)) = stage env \<and>
   prev_stage (snd (get_reward env w links)) = prev_stage env \<and>
   cid (snd (get_reward env w links)) = cid env \<and>
   automatic_reset (snd (get_reward env w links)) = automatic_reset env \<and>
   env_class (snd (get_reward env w links)) = env_class env"
  using NavigateEnv_get_reward_frame [of env w links]
    InteractiveNavigateEnv_get_reward_frame [of env w links]
  by (cases "env_class env") (simp_all add: get_reward_def)

lemma get_termination_frame:
  "stage (snd (get_termination env w)) = stage env \<and>
   prev_stage (snd (get_termination env w)) = prev_stage env \<and>
   cid (snd (get_termination env w)) = cid env \<and>
   automatic_reset (snd (get_termination env w)) = automatic_reset env \<and>
   env_class (snd (get_termination env w)) = env_class env"
  by (simp add: get_termination_def Let_def split: sum.splits)

lemma NavigateEnv_step_frame:
  assumes "\<not> automatic_reset env"
  shows "\<exists>out env'. NavigateEnv_step env action w rin = Some (out, env') \<and>
           stage env' = stage env \<and> prev_stage env' = prev_stage env \<and>
           cid env' = cid env \<and> automatic_reset env' = automatic_reset env \<and>
           env_class env' = env_class env"
proof (cases "get_state env w (run_simulation env w)")
  case (Inl e)
  then show ?thesis
    by (simp add: NavigateEnv_step_def)
next
  case (Inr state)
  obtain r env1 where r: "get_reward env w (run_simulation env w) = (r, env1)"
    by (cases "get_reward env w (run_simulation env w)")
  have f1: "stage env1 = stage env \<and> prev_stage env1 = prev_stage env \<and>
      cid env1 = cid env \<and> automatic_reset env1 = automatic_reset env \<and>
      env_class env1 = env_class env"
    using get_reward_frame [of env w "run_simulation env w"] r by simp
  obtain t env2 where t: "get_termination env1 w = (t, env2)"
    by (cases "get_termination env1 w")
  have f2: "stage env2 = stage env \<and> prev_stage env2 = prev_stage env \<and>
      cid env2 = cid env \<and> automatic_reset env2 = automatic_reset env \<and>
      env_class env2 = env_class env"
    using get_termination_frame [of env1 w] t f1 by simp
  show ?thesis
    using Inr r t f1 f2 assms
    by (simp add: NavigateEnv_step_def split: sum.splits prod.splits)
qed

lemma interactive_step_stage:
  assumes "env_class env = InteractiveNavigateEnv" and "\<not> automatic_reset env"
  shows "\<exists>out env'. step env action pre w rin = Some (out, env') \<and>
           stage env' = stage (snd (stage_transition env pre)) \<and>
           prev_stage env' = stage env \<and> \<not> automatic_reset env' \<and>
           env_class env' = InteractiveNavigateEnv"
proof -
  obtain r env1 where t: "stage_transition env pre = (r, env1)"
    by (cases "stage_transition env pre")
  note f = stage_transition_frame [OF t]
  show ?thesis
  proof (cases r)
    case (Inl e)
    with t f assms show ?thesis
      by (simp add: step_def InteractiveNavigateEnv_step_def)
  next
    case (Inr u)
    have "\<not> automatic_reset env1"
      using f assms by simp
    from NavigateEnv_step_frame [OF this, of action w rin] Inr t f assms show ?thesis
      by (auto simp: step_def InteractiveNavigateEnv_step_def)
  qed
qed

lemma stage_transition_bounds:
  assumes "stage env \<le> stage_get_to_target_pos"
  shows "stage env \<le> stage (snd (stage_transition env pre)) \<and>
         stage (snd (stage_transition env pre)) \<le> stage env + 2 \<and>
         stage (snd (stage_transition env pre)) \<le> stage_get_to_target_pos"
proof -
  obtain r env1 where t: "stage_transition env pre = (r, env1)"
    by (cases "stage_transition env pre")
  from stage_transition_stage [OF t] assms t show ?thesis
    by (auto simp: stage_get_to_door_handle_def stage_open_door_def
        stage_get_to_target_pos_def)
qed

lemma run_steps_stages:
  assumes "env_class env = InteractiveNavigateEnv" and "\<not> automatic_reset env"
    and "stage env \<le> stage_get_to_target_pos"
  shows "sorted (map stage (env # run_steps env inputs)) \<and>
         list_all (\<lambda>e. stage e \<le> stage_get_to_target_pos) (run_steps env inputs) \<and>
         length (run_steps env inputs) = length inputs"
  using assms
proof (induction inputs arbitrary: env)
  case Nil
  then show ?case by simp
next
  case (Cons i rest)
  from interactive_step_stage [OF Cons.prems(1,2)] obtain out env' where
    s: "step env (action_of i) (before_ticks i) (after_ticks i) (reset_of i) = Some (out, env')"
    and st: "stage env' = stage (snd (stage_transition env (before_ticks i)))"
    and a: "\<not> automatic_reset env'" and c: "env_class env' = InteractiveNavigateEnv"
    by blast
  from stage_transition_bounds [OF Cons.prems(3), of "before_ticks i"] st
  have le: "stage env \<le> stage env'" and b: "stage env' \<le> stage_get_to_target_pos"
    by simp_all
  from Cons.IH [OF c a b] have ih:
    "sorted (map stage (env' # run_steps env' rest))"
    "list_all (\<lambda>e. stage e \<le> stage_get_to_target_pos) (run_steps env' rest)"
    "length (run_steps env' rest) = length rest"
    by simp_all
  have "\<forall>e\<in>set (run_steps env' rest). stage env' \<le> stage e"
    using ih(1) by simp
  with le have "\<forall>x\<in>set (map stage (env' # run_steps env' rest)). stage env \<le> x"
    by (auto intro: le_trans)
  with ih s b show ?case
    by simp
qed

lemma run_steps_single:
  assumes "env_class env = InteractiveNavigateEnv" and "\<not> automatic_reset env"
  shows "map stage (run_steps env [i]) = [stage (snd (stage_transition env (before_ticks i)))]"
  using interactive_step_stage [OF assms, of "action_of i" "before_ticks i" "after_ticks i"
      "reset_of i"]
  by auto

text \<open>
  C6, as the claim states it, fails: the two transition checks of \<^verbatim>\<open>step\<close> are two
  \<^verbatim>\<open>if\<close> statements in sequence. When the end effector is within 0.2 of the handle and
  the door joint is already below the threshold, one call takes the stage from
  get\_to\_door\_handle to get\_to\_target\_pos.
\<close>

theorem stage_skips_open_door:
  "stage door_started = stage_get_to_door_handle \<and>
   map stage (run_steps door_started
     [\<lparr>action_of = [0, 0],
       before_ticks = standing_world (2, 0, 0) (2.9, 0, 0) (3, 0, 0) (- 2) [],
       after_ticks = standing_world (2, 0, 0) (2.9, 0, 0) (3, 0, 0) (- 2) [],
       reset_of = start_input\<rparr>]) = [stage_get_to_target_pos]"
proof -
  have "stage (snd (stage_transition door_started
          (standing_world (2, 0, 0) (2.9, 0, 0) (3, 0, 0) (- 2) []))) = stage_get_to_target_pos"
    using pi_less_4
    by (simp add: stage_transition_def Let_def door_started_simps standing_world_def
        stage_get_to_door_handle_def stage_open_door_def stage_get_to_target_pos_def
        vec3_sub_def l2_norm_x)
  then show ?thesis
    using run_steps_single [of door_started
        "\<lparr>action_of = [0, 0],
          before_ticks = standing_world (2, 0, 0) (2.9, 0, 0) (3, 0, 0) (- 2) [],
          after_ticks = standing_world (2, 0, 0) (2.9, 0, 0) (3, 0, 0) (- 2) [],
          reset_of = start_input\<rparr>"]
    by (simp add: door_started_simps stage_get_to_door_handle_def)
qed

subsection \<open>Reset\<close>

lemma InteractiveNavigateEnv_initial_pos_Some:
  "InteractiveNavigateEnv_initial_pos env trials = Some env1 \<Longrightarrow>
   env1 = env\<lparr>initial_pos := (0, 0, 0)\<rparr>"
  by (induction env trials rule: InteractiveNavigateEnv_initial_pos.induct)
    (auto simp: Let_def split: if_splits)

lemma InteractiveNavigateEnv_initial_pos_returns:
  "list_ex (\<lambda>trial. - 1 \<notin> set (snd trial)) trials \<Longrightarrow>
   InteractiveNavigateEnv_initial_pos env trials = Some (env\<lparr>initial_pos := (0, 0, 0)\<rparr>)"
  by (induction env trials rule: InteractiveNavigateEnv_initial_pos.induct)
    (auto simp: Let_def)

lemma reset_interactive_objects_fields:
  "cid (reset_interactive_objects env) = None"
  "trace (reset_interactive_objects env) =
     trace env @ ResetJointState 0 0 # (case cid env of None \<Rightarrow> [] | Some c \<Rightarrow> [RemoveConstraint c])"
  "env_class (reset_interactive_objects env) = env_class env"
  by (simp_all add: reset_interactive_objects_def Let_def split: option.splits)

lemma InteractiveNavigateEnv_reset_result:
  assumes "env_class env = InteractiveNavigateEnv"
  shows "InteractiveNavigateEnv_reset env rin =
     (case InteractiveNavigateEnv_initial_pos
             (reset_interactive_objects env\<lparr>stage := 0, prev_stage := 0\<rparr>)
             (start_trials rin) of
        None \<Rightarrow> None
      | Some env1 \<Rightarrow>
          (let env2 = env1\<lparr>target_pos := (- 100, - 100, 0),
                           initial_potential :=
                             l2_distance (door_handle_link_pos (placed rin))
                               (robot_end_effector_position (placed rin)),
                           normalized_potential := 1, current_step := 0\<rparr>
           in Some (get_state env2 (placed rin) [], env2)))"
proof (cases "InteractiveNavigateEnv_initial_pos
             (reset_interactive_objects env\<lparr>stage := 0, prev_stage := 0\<rparr>)
             (start_trials rin)")
  case None
  with assms show ?thesis
    by (simp add: InteractiveNavigateEnv_reset_def NavigateEnv_reset_def Let_def
        reset_initial_and_target_pos_def reset_interactive_objects_fields
        InteractiveNavigateEnv_reset_initial_and_target_pos_def)
next
  case (Some env1)
  from InteractiveNavigateEnv_initial_pos_Some [OF this]
  have "stage env1 = 0" and "env_class env1 = InteractiveNavigateEnv"
    using assms by (simp_all add: reset_interactive_objects_fields)
  with Some assms show ?thesis
    by (simp add: InteractiveNavigateEnv_reset_def NavigateEnv_reset_def Let_def
        reset_initial_and_target_pos_def reset_interactive_objects_fields
        InteractiveNavigateEnv_reset_initial_and_target_pos_def get_potential_def
        InteractiveNavigateEnv_get_potential_def stage_get_to_door_handle_def)
qed

text \<open>
  C10: whatever state the object of the multi-stage variant is in, a \<^verbatim>\<open>reset\<close> call
  that comes back (with the first observation, or raising while that observation is
  assembled) leaves the current and the previous stage at the start stage,
  \<open>normalized_potential\<close> at 1 and the step counter at 0; it has asked the physics engine
  to set the door joint to position 0 and velocity 0, has removed the constraint if there
  was one, and the constraint handle is \<^verbatim>\<open>None\<close>. The call comes back as soon as one
  placement attempt is free of contacts with the base link.
\<close>

theorem reset_restores_start:
  assumes "env_class env = InteractiveNavigateEnv"
  shows
    "(\<forall>out env'. reset env rin = Some (out, env') \<longrightarrow>
        stage env' = stage_get_to_door_handle \<and> prev_stage env' = stage_get_to_door_handle \<and>
        normalized_potential env' = 1 \<and> current_step env' = 0 \<and> cid env' = None \<and>
        trace env' = trace env @ ResetJointState 0 0 #
          (case cid env of None \<Rightarrow> [] | Some c \<Rightarrow> [RemoveConstraint c])) \<and>
     (list_ex (\<lambda>trial. - 1 \<notin> set (snd trial)) (start_trials rin) \<longrightarrow>
        (\<exists>out env'. reset env rin = Some (out, env')))"
proof -
  let ?env0 = "reset_interactive_objects env\<lparr>stage := 0, prev_stage := 0\<rparr>"
  have r: "reset env rin = InteractiveNavigateEnv_reset env rin"
    using assms by (simp add: reset_def)
  have a: "stage env' = stage_get_to_door_handle \<and> prev_stage env' = stage_get_to_door_handle \<and>
        normalized_potential env' = 1 \<and> current_step env' = 0 \<and> cid env' = None \<and>
        trace env' = trace env @ ResetJointState 0 0 #
          (case cid env of None \<Rightarrow> [] | Some c \<Rightarrow> [RemoveConstraint c])"
    if "reset env rin = Some (out, env')" for out env'
  proof -
    from that r InteractiveNavigateEnv_reset_result [OF assms, of rin]
    obtain env1 where e1: "InteractiveNavigateEnv_initial_pos ?env0 (start_trials rin) = Some env1"
      and e': "env' = env1\<lparr>target_pos := (- 100, - 100, 0),
                           initial_potential :=
                             l2_distance (door_handle_link_pos (placed rin))
                               (robot_end_effector_position (placed rin)),
                           normalized_potential := 1, current_step := 0\<rparr>"
      by (auto simp: Let_def split: option.splits)
    from InteractiveNavigateEnv_initial_pos_Some [OF e1] e' show ?thesis
      by (simp add: reset_interactive_objects_fields stage_get_to_door_handle_def)
  qed
  have b: "\<exists>out env'. reset env rin = Some (out, env')"
    if "list_ex (\<lambda>trial. - 1 \<notin> set (snd trial)) (start_trials rin)"
    using InteractiveNavigateEnv_initial_pos_returns [OF that, of ?env0] r
      InteractiveNavigateEnv_reset_result [OF assms, of rin]
    by (simp add: Let_def)
  from a b show ?thesis
    by blast
qed

theorem reset_restores_start_witness:
  "\<exists>out env'.
     reset (snd (stage_transition door_started grasp_world)\<lparr>current_step := 37\<rparr>)
       \<lparr>start_trials = [((0, 0, 0), [- 1, 2]), ((0, 0, 0), [])], target_samples = [],
        placed = start_world\<rparr> = Some (out, env') \<and>
     stage (snd (stage_transition door_started grasp_world)) = stage_open_door \<and>
     cid (snd (stage_transition door_started grasp_world)) = Some 1 \<and>
     stage env' = stage_get_to_door_handle \<and> prev_stage env' = stage_get_to_door_handle \<and>
     normalized_potential env' = 1 \<and> current_step env' = 0 \<and> cid env' = None \<and>
     trace env' =
       [ResetJointState 0 0, CreateConstraint 1, ChangeConstraint 1 500,
        Print ''stage open_door'', ResetJointState 0 0, RemoveConstraint 1]"
proof -
  let ?env = "snd (stage_transition door_started grasp_world)\<lparr>current_step := 37\<rparr>"
  let ?rin = "\<lparr>start_trials = [((0, 0, 0), [- 1, 2]), ((0, 0, 0), [])], target_samples = [],
        placed = start_world\<rparr>"
  have cls: "env_class ?env = InteractiveNavigateEnv"
    by (simp add: door_grasp door_started_simps)
  have free: "list_ex (\<lambda>trial. - 1 \<notin> set (snd trial)) (start_trials ?rin)"
    by simp
  from reset_restores_start [OF cls, of ?rin] free
  obtain out env' where r: "reset ?env ?rin = Some (out, env')"
    by blast
  with reset_restores_start [OF cls, of ?rin]
  have "stage env' = stage_get_to_door_handle \<and> prev_stage env' = stage_get_to_door_handle \<and>
        normalized_potential env' = 1 \<and> current_step env' = 0 \<and> cid env' = None \<and>
        trace env' = trace ?env @ ResetJointState 0 0 #
          (case cid ?env of None \<Rightarrow> [] | Some c \<Rightarrow> [RemoveConstraint c])"
    by blast
  with r show ?thesis
    by (simp add: door_grasp door_started_simps stage_open_door_def)
qed

subsection \<open>The dimension of the state vector\<close>

lemma length_vec3_list [simp]: "length (vec3_list v) = 3"
  by (cases v) (simp add: vec3_list_def)

lemma NavigateEnv_additional_states_length:
  assumes "c_task (config env) = Some task"
  shows "NavigateEnv_get_additional_states env w = Inl AssertionError \<longleftrightarrow>
           additional_states_dim env \<noteq> (if task = ''reaching'' then 6 else 3)"
    and "NavigateEnv_get_additional_states env w = Inr v \<Longrightarrow>
           length v = additional_states_dim env"
  using assms
  by (auto simp: NavigateEnv_get_additional_states_def Let_def split: prod.splits if_splits)

lemma NavigateEnv_additional_states_Inr:
  "NavigateEnv_get_additional_states env w = Inr v \<Longrightarrow> length v = additional_states_dim env"
  by (cases "c_task (config env)")
    (auto simp: NavigateEnv_get_additional_states_def Let_def split: prod.splits if_splits)

lemma wrap_to_pi_returns:
  "list_all (\<lambda>i. i < length xs) indices \<Longrightarrow>
   \<exists>ys. wrap_to_pi xs indices = Inr ys \<and> length ys = length xs"
  by (simp add: wrap_to_pi_def)

lemma InteractiveNavigateEnv_additional_states_length:
  "InteractiveNavigateEnv_get_additional_states env w = Inl AssertionError \<longleftrightarrow>
     additional_states_dim env \<noteq> 7"
  "InteractiveNavigateEnv_get_additional_states env w = Inr v \<Longrightarrow>
     length v = additional_states_dim env"
proof -
  obtain roll pitch yaw where rpy: "robot_rpy w = (roll, pitch, yaw)"
    by (cases "robot_rpy w")
  let ?xs = "take 2 (vec3_list (robot_position w)) @
      vec3_list (rotate_vector_3d w
        (vec3_sub (robot_end_effector_position w) (robot_position w)) roll pitch yaw) @
      [yaw, door_joint_state w]"
  have len: "length ?xs = 7"
    by simp
  then have "list_all (\<lambda>i. i < length ?xs) [5, 6]"
    by simp
  from wrap_to_pi_returns [OF this] len obtain ys where
    ys: "wrap_to_pi ?xs [5, 6] = Inr ys" "length ys = 7"
    by auto
  then have eq: "InteractiveNavigateEnv_get_additional_states env w =
      (if additional_states_dim env = 7 then Inr ys else Inl AssertionError)"
    using rpy by (simp add: InteractiveNavigateEnv_get_additional_states_def Let_def)
  show "InteractiveNavigateEnv_get_additional_states env w = Inl AssertionError \<longleftrightarrow>
     additional_states_dim env \<noteq> 7"
    using eq by simp
  show "length v = additional_states_dim env"
    if "InteractiveNavigateEnv_get_additional_states env w = Inr v"
    using that eq ys(2) by (simp split: if_splits)
qed

text \<open>
  C5, amended: whenever \<^verbatim>\<open>get_additional_states\<close> returns a state vector, its length is
  the configured \<open>additional_states_dim\<close>; it fails its assertion exactly when that
  dimension differs from the number of entries the class assembles (7 in the multi-stage
  variant, 6 for a reaching task and 3 otherwise in the base variant). \<^verbatim>\<open>load\<close> copies
  the declared dimension without checking it: whether it succeeds does not depend on the
  dimension, so a violating configuration passes \<^verbatim>\<open>load\<close> and fails when the state is
  assembled, in \<^verbatim>\<open>reset\<close> and in \<^verbatim>\<open>step\<close>.
\<close>

theorem state_vector_dimension:
  "(\<forall>v. get_additional_states env w = Inr v \<longrightarrow> length v = additional_states_dim env) \<and>
   (env_class env = InteractiveNavigateEnv \<longrightarrow>
      (get_additional_states env w = Inl AssertionError \<longleftrightarrow> additional_states_dim env \<noteq> 7)) \<and>
   (\<forall>task. env_class env \<noteq> InteractiveNavigateEnv \<and> c_task (config env) = Some task \<longrightarrow>
      (get_additional_states env w = Inl AssertionError \<longleftrightarrow>
         additional_states_dim env \<noteq> (if task = ''reaching'' then 6 else 3))) \<and>
   fst (load (env\<lparr>config := (config env)\<lparr>c_additional_states_dim := declared\<rparr>\<rparr>)) =
     fst (load env) \<and>
   additional_states_dim (snd (load env)) =
     config_get (c_additional_states_dim (config env)) 0"
proof -
  have a: "\<forall>v. get_additional_states env w = Inr v \<longrightarrow> length v = additional_states_dim env"
    using NavigateEnv_additional_states_Inr [of env w]
      InteractiveNavigateEnv_additional_states_length(2) [of env w]
    by (cases "env_class env") (simp_all add: get_additional_states_def)
  have b: "env_class env = InteractiveNavigateEnv \<longrightarrow>
      (get_additional_states env w = Inl AssertionError \<longleftrightarrow> additional_states_dim env \<noteq> 7)"
    using InteractiveNavigateEnv_additional_states_length(1) [of env w]
    by (simp add: get_additional_states_def)
  have c: "\<forall>task. env_class env \<noteq> InteractiveNavigateEnv \<and> c_task (config env) = Some task \<longrightarrow>
      (get_additional_states env w = Inl AssertionError \<longleftrightarrow>
         additional_states_dim env \<noteq> (if task = ''reaching'' then 6 else 3))"
    using NavigateEnv_additional_states_length(1) [of env _ w]
    by (cases "env_class env") (simp_all add: get_additional_states_def)
  have d: "fst (load (env\<lparr>config := (config env)\<lparr>c_additional_states_dim := declared\<rparr>\<rparr>)) =
     fst (load env)"
    by (simp add: load_def Let_def split: option.splits)
  have e: "additional_states_dim (snd (load env)) =
     config_get (c_additional_states_dim (config env)) 0"
    by (simp add: load_def Let_def split: option.splits)
  from a b c d e show ?thesis
    by blast
qed

lemma mismatched_env_simps:
  "env_class mismatched_env = InteractiveNavigateEnv"
  "c_task (config mismatched_env) = Some ''reaching''"
  "additional_states_dim mismatched_env = 3"
  "auxiliary_sensor_dim mismatched_env = 42"
  "normalize_observation mismatched_env = False"
  "automatic_reset mismatched_env = False"
  "simulator_loop mismatched_env = 4"
  "outputs mismatched_env = [''sensor'', ''auxiliary_sensor'', ''bump'']"
  "door_angle mismatched_env = - (pi / 2)"
  "stage mismatched_env = 0"
  "prev_stage mismatched_env = 0"
  "cid mismatched_env = None"
  "trace mismatched_env = []"
  by (simp_all add: mismatched_env_def mismatched_config_def InteractiveNavigateEnv_init_def
      load_def unloaded_env_def door_config_def empty_config_def config_get_def Let_def)

lemma mismatched_load:
  "fst (load (unloaded_env InteractiveNavigateEnv mismatched_config)) = Inr ()"
  by (simp add: mismatched_config_def load_def unloaded_env_def door_config_def
      empty_config_def config_get_def Let_def)

lemma get_state_additional_states_error:
  "get_additional_states env w = Inl e \<Longrightarrow> get_state env w links = Inl e"
  by (cases "env_class env")
    (simp_all add: get_state_def InteractiveNavigateEnv_get_state_def
      NavigateEnv_get_state_def)

lemma mismatched_get_state:
  assumes "env_class env = InteractiveNavigateEnv" and "additional_states_dim env = 3"
  shows "get_state env w links = Inl AssertionError"
proof -
  have "get_additional_states env w = Inl AssertionError"
    using assms InteractiveNavigateEnv_additional_states_length(1) [of env w]
    by (simp add: get_additional_states_def)
  then show ?thesis
    by (rule get_state_additional_states_error)
qed

text \<open>
  C5, as the claim states it, fails: the door task with a declared dimension of 3 is
  loaded without error; the assertion fails in the first \<^verbatim>\<open>reset\<close> and again in a
  \<^verbatim>\<open>step\<close> after it.
\<close>

theorem dimension_mismatch_passes_load:
  "fst (load (unloaded_env InteractiveNavigateEnv mismatched_config)) = Inr () \<and>
   additional_states_dim mismatched_env = 3 \<and>
   reset mismatched_env start_input =
     Some (Inl AssertionError,
           mismatched_env\<lparr>trace := [ResetJointState 0 0], stage := 0, prev_stage := 0,
                          initial_pos := (0, 0, 0), target_pos := (- 100, - 100, 0),
                          initial_potential := 2, normalized_potential := 1,
                          current_step := 0\<rparr>) \<and>
   step (mismatched_env\<lparr>trace := [ResetJointState 0 0], stage := 0, prev_stage := 0,
                          initial_pos := (0, 0, 0), target_pos := (- 100, - 100, 0),
                          initial_potential := 2, normalized_potential := 1,
                          current_step := 0\<rparr>) [0, 0] start_world start_world start_input =
     Some (Inl AssertionError,
           mismatched_env\<lparr>trace := [ResetJointState 0 0], stage := 0, prev_stage := 0,
                          initial_pos := (0, 0, 0), target_pos := (- 100, - 100, 0),
                          initial_potential := 2, normalized_potential := 1,
                          current_step := 0\<rparr>)"
proof -
  let ?env = "mismatched_env\<lparr>trace := [ResetJointState 0 0], stage := 0, prev_stage := 0,
                          initial_pos := (0, 0, 0), target_pos := (- 100, - 100, 0),
                          initial_potential := 2, normalized_potential := 1,
                          current_step := 0\<rparr>"
  have st: "get_state ?env w links = Inl AssertionError" for w links
    by (rule mismatched_get_state) (simp_all add: mismatched_env_simps)
  have r: "reset mismatched_env start_input = Some (Inl AssertionError, ?env)"
    using InteractiveNavigateEnv_reset_result [OF mismatched_env_simps(1), of start_input]
      st [of start_world "[]"]
    by (simp add: reset_def mismatched_env_simps reset_interactive_objects_def Let_def
        start_input_def start_world_simps l2_distance_def vec3_sub_def l2_norm_x)
  have t: "stage_transition ?env start_world = (Inr (), ?env)"
    by (simp add: stage_transition_def Let_def start_world_simps vec3_sub_def l2_norm_x
        stage_get_to_door_handle_def stage_open_door_def)
  have s: "step ?env [0, 0] start_world start_world start_input =
      Some (Inl AssertionError, ?env)"
    using st [of start_world "run_simulation ?env start_world"]
    by (simp add: step_def InteractiveNavigateEnv_step_def t NavigateEnv_step_def
        mismatched_env_simps)
  from mismatched_load mismatched_env_simps(3) r s show ?thesis
    by simp
qed

theorem state_vector_dimension_witness:
  "get_additional_states door_started start_world = Inr [0, 0, 1, 0, 0, 0, 0] \<and>
   length [0 :: real, 0, 1, 0, 0, 0, 0] = additional_states_dim door_started \<and>
   get_additional_states mismatched_env start_world = Inl AssertionError \<and>
   fst (load (unloaded_env InteractiveNavigateEnv mismatched_config)) =
     fst (load (unloaded_env InteractiveNavigateEnv door_config))"
proof -
  have v: "get_additional_states door_started start_world = Inr [0, 0, 1, 0, 0, 0, 0]"
    by (simp add: get_additional_states_def InteractiveNavigateEnv_get_additional_states_def
        door_started_simps start_world_simps vec3_list_def vec3_sub_def wrap_to_pi_def
        enumerate_eq_zip wrap_angle_0)
  have l: "unloaded_env InteractiveNavigateEnv mismatched_config =
      (unloaded_env InteractiveNavigateEnv door_config)
        \<lparr>config := (config (unloaded_env InteractiveNavigateEnv door_config))
           \<lparr>c_additional_states_dim := Some 3\<rparr>\<rparr>"
    by (simp add: unloaded_env_def mismatched_config_def)
  from state_vector_dimension [of door_started start_world "Some 3"] v
  have a: "length [0 :: real, 0, 1, 0, 0, 0, 0] = additional_states_dim door_started"
    by blast
  from state_vector_dimension [of mismatched_env start_world "Some 3"]
  have b: "get_additional_states mismatched_env start_world = Inl AssertionError"
    by (simp add: mismatched_env_simps)
  from state_vector_dimension [of "unloaded_env InteractiveNavigateEnv door_config"
      start_world "Some 3"] l
  have c: "fst (load (unloaded_env InteractiveNavigateEnv mismatched_config)) =
     fst (load (unloaded_env InteractiveNavigateEnv door_config))"
    by simp
  from v a b c show ?thesis
    by simp
qed

subsection \<open>The bump channel\<close>

lemma run_simulation_contacts:
  "PyInt n \<notin> set (run_simulation env w)"
  by (auto simp: run_simulation_def)

lemma map_of_set_channel:
  "map_of (set_channel requested key v state) k =
     (if requested \<and> k = key then Some v else map_of state k)"
  by (simp add: set_channel_def update_conv')

lemma NavigateEnv_get_state_bump:
  assumes "NavigateEnv_get_state env w links = Inr obs" and "''bump'' \<in> set (outputs env)"
  shows "map_of obs ''bump'' = Some (Flag (PyInt (- 1) \<in> set links))"
proof -
  from assms(1) obtain sensor_state auxiliary_sensor where
    "get_additional_states env w = Inr sensor_state"
    "get_auxiliary_sensor env w = Inr auxiliary_sensor"
    by (auto simp: NavigateEnv_get_state_def split: sum.splits)
  with assms have "map_of obs ''bump'' = Some (Flag (PyInt (- 1) \<in> set links))"
    by (auto simp: NavigateEnv_get_state_def Let_def map_of_set_channel split: if_splits)
  then show ?thesis .
qed

lemma interactive_get_state_bump:
  assumes "env_class env = InteractiveNavigateEnv" and "\<not> normalize_observation env"
    and "get_state env w links = Inr obs" and "''bump'' \<in> set (outputs env)"
  shows "map_of obs ''bump'' = Some (Flag False)"
proof -
  from assms(1,2,3) have "NavigateEnv_get_state env w [] = Inr obs"
    by (simp add: get_state_def InteractiveNavigateEnv_get_state_def split: sum.splits)
  from NavigateEnv_get_state_bump [OF this assms(4)] show ?thesis
    by simp
qed

lemma bump_world_simps:
  "robot_position bump_world = (1, 0, 0)"
  "robot_rpy bump_world = (0, 0, 0)"
  "robot_end_effector_position bump_world = (2, 0, 0)"
  "rotate_vector_3d bump_world = (\<lambda>v r p y. v)"
  "joint_speed_torque bump_world = [(0, 0), (0, 0)]"
  "robot_calc_state bump_world = replicate 46 0"
  "has_scan_link bump_world = False"
  "door_joint_state bump_world = 0"
  "door_handle_link_pos bump_world = (3, 0, 0)"
  "jr_end_effector_link_pos bump_world = (2, 0, 0)"
  "contact_points bump_world =
     (\<lambda>tick. [\<lparr>contactFlag = 0, bodyUniqueIdA = 1, bodyUniqueIdB = 5, linkIndexA = - 1,
               linkIndexB = 0\<rparr>])"
  by (simp_all add: bump_world_def standing_world_def)

lemma bump_run_simulation:
  "run_simulation door_started bump_world =
     replicate 4 (PyContact \<lparr>contactFlag = 0, bodyUniqueIdA = 1, bodyUniqueIdB = 5,
                             linkIndexA = - 1, linkIndexB = 0\<rparr>)"
  by (simp add: run_simulation_def door_started_simps bump_world_simps upt_rec numeral_eq_Suc)

lemma bump_stage_transition:
  "stage_transition door_started bump_world = (Inr (), door_started)"
  by (simp add: stage_transition_def Let_def door_started_simps bump_world_simps
      stage_get_to_door_handle_def stage_open_door_def vec3_sub_def l2_norm_x
      door_started_eq)

lemma bump_get_state:
  "\<exists>obs. get_state door_started bump_world links = Inr obs"
  by (simp add: get_state_def InteractiveNavigateEnv_get_state_def NavigateEnv_get_state_def
      set_channel_def door_started_simps bump_world_simps Let_def
      get_additional_states_def InteractiveNavigateEnv_get_additional_states_def
      get_auxiliary_sensor_def InteractiveNavigateEnv_get_auxiliary_sensor_def
      stage_open_door_def vec3_list_def vec3_sub_def wrap_to_pi_def enumerate_eq_zip)

lemma bump_get_reward:
  "get_reward door_started bump_world (run_simulation door_started bump_world) =
     (Inr 4, door_started\<lparr>normalized_potential := 1 / 2\<rparr>)"
proof -
  have p: "get_potential door_started bump_world = Inr 1"
    by (simp add: get_potential_def InteractiveNavigateEnv_get_potential_def
        door_started_simps stage_get_to_door_handle_def bump_world_simps l2_distance_def
        vec3_sub_def l2_norm_x)
  have g: "goal_distance door_started bump_world =
      Inr (l2_distance (- 100, - 100, 0) (2, 0, 0))"
    by (simp add: goal_distance_def get_position_of_interest_def door_started_simps
        bump_world_simps)
  have far: "\<not> l2_distance (- 100, - 100, 0) (2, 0, 0) < 0.2"
    using l2_norm_ge_x [of "- 102" "- 100" 0] by (simp add: l2_distance_def vec3_sub_def)
  have ids: "link_ids_off_handle door_started (run_simulation door_started bump_world) =
      Inr [- 1, - 1, - 1, - 1]"
    by (simp add: bump_run_simulation numeral_eq_Suc door_started_simps)
  from InteractiveNavigateEnv_get_reward_shaping [OF p ids g] far show ?thesis
    by (simp add: get_reward_interactive door_started_simps shaping_term_def
        electricity_term_def stall_torque_term_def collision_term_def success_bonus_def
        failure_penalty_def bump_world_simps mean_zeros clip_def vec3_z_def)
qed

lemma bump_get_termination:
  "get_termination (door_started\<lparr>normalized_potential := 1 / 2\<rparr>) bump_world =
     (Inr (False, []), door_started\<lparr>normalized_potential := 1 / 2, current_step := 1\<rparr>)"
proof -
  have g: "goal_distance (door_started\<lparr>normalized_potential := 1 / 2\<rparr>) bump_world =
      Inr (l2_distance (- 100, - 100, 0) (2, 0, 0))"
    by (simp add: goal_distance_def get_position_of_interest_def door_started_simps
        bump_world_simps)
  have far: "\<not> l2_distance (- 100, - 100, 0) (2, 0, 0) < 0.2"
    using l2_norm_ge_x [of "- 102" "- 100" 0] by (simp add: l2_distance_def vec3_sub_def)
  from g far show ?thesis
    by (simp add: get_termination_def Let_def door_started_simps bump_world_simps vec3_z_def)
qed

text \<open>
  C4: the channel \<^verbatim>\<open>bump\<close> is meant to say whether the base link, id \<open>-1\<close>, is among the
  contacts of the step. The code does not do that. \<^verbatim>\<open>run_simulation\<close> returns whole
  contact tuples, and \<^verbatim>\<open>-1 in collision_links\<close> compares the integer with tuples; the
  multi-stage variant moreover calls the \<^verbatim>\<open>get_state\<close> of the base class without the
  list. On a step of the door episode in which the base link touches a wall in every
  sub-tick, the channel is \<open>False\<close>, while the collision term of the same step, which
  reads entry 3 of each tuple, has seen the contact: the reward is \<open>5 - 1\<close>.
\<close>

theorem bump_false_on_base_contact:
  "PyContact \<lparr>contactFlag = 0, bodyUniqueIdA = 1, bodyUniqueIdB = 5, linkIndexA = - 1,
              linkIndexB = 0\<rparr> \<in> set (run_simulation door_started bump_world) \<and>
   ''bump'' \<in> set (outputs door_started) \<and>
   (case step door_started [0, 0] bump_world bump_world start_input of
      Some (Inr (obs, reward, finished, info), env') \<Rightarrow>
        map_of obs ''bump'' = Some (Flag False) \<and> reward = 4
    | _ \<Rightarrow> False)"
proof -
  obtain obs where obs:
    "get_state door_started bump_world (run_simulation door_started bump_world) = Inr obs"
    using bump_get_state by blast
  have b: "map_of obs ''bump'' = Some (Flag False)"
    by (rule interactive_get_state_bump [OF _ _ obs]) (simp_all add: door_started_simps)
  have "step door_started [0, 0] bump_world bump_world start_input =
      Some (Inr (obs, 4, False, []),
            door_started\<lparr>normalized_potential := 1 / 2, current_step := 1\<rparr>)"
    by (simp add: step_def InteractiveNavigateEnv_step_def bump_stage_transition
        NavigateEnv_step_def obs bump_get_reward bump_get_termination door_started_simps)
  with b show ?thesis
    by (simp add: bump_run_simulation door_started_simps)
qed

subsection \<open>Episodes and the automatic reset\<close>

lemma NavigateEnv_step_no_reset:
  assumes "\<not> NavigateEnv_step_resets env w"
  shows "\<exists>out env'. NavigateEnv_step env action w rin = Some (out, env') \<and>
           stage env' = stage env \<and> prev_stage env' = prev_stage env \<and>
           cid env' = cid env \<and> automatic_reset env' = automatic_reset env \<and>
           env_class env' = env_class env"
proof (cases "get_state env w (run_simulation env w)")
  case (Inl e)
  then show ?thesis
    by (simp add: NavigateEnv_step_def)
next
  case (Inr state)
  obtain r env1 where r: "get_reward env w (run_simulation env w) = (r, env1)"
    by (cases "get_reward env w (run_simulation env w)")
  have f1: "stage env1 = stage env \<and> prev_stage env1 = prev_stage env \<and>
      cid env1 = cid env \<and> automatic_reset env1 = automatic_reset env \<and>
      env_class env1 = env_class env"
    using get_reward_frame [of env w "run_simulation env w"] r by simp
  obtain t env2 where t: "get_termination env1 w = (t, env2)"
    by (cases "get_termination env1 w")
  have f2: "stage env2 = stage env \<and> prev_stage env2 = prev_stage env \<and>
      cid env2 = cid env \<and> automatic_reset env2 = automatic_reset env \<and>
      env_class env2 = env_class env"
    using get_termination_frame [of env1 w] t f1 by simp
  show ?thesis
    using Inr r t f1 f2 assms
    by (auto simp: NavigateEnv_step_def NavigateEnv_step_resets_def Let_def
        split: sum.splits prod.splits)
qed

lemma NavigateEnv_step_resets_flag:
  "NavigateEnv_step_resets env w \<Longrightarrow> automatic_reset env"
proof -
  assume a: "NavigateEnv_step_resets env w"
  obtain r env1 where r: "get_reward env w (run_simulation env w) = (r, env1)"
    by (cases "get_reward env w (run_simulation env w)")
  obtain t env2 where t: "get_termination env1 w = (t, env2)"
    by (cases "get_termination env1 w")
  have "automatic_reset env2 = automatic_reset env"
    using get_reward_frame [of env w "run_simulation env w"] get_termination_frame [of env1 w]
      r t by simp
  with a r t show ?thesis
    by (auto simp: NavigateEnv_step_resets_def Let_def split: sum.splits prod.splits)
qed

lemma NavigateEnv_step_resets_terminal:
  assumes "NavigateEnv_step_resets env w"
    and "NavigateEnv_step env action w rin = Some (Inr (obs, r, fin, info), env')"
  shows "fin"
  using assms
  by (auto simp: NavigateEnv_step_def NavigateEnv_step_resets_def Let_def
      split: sum.splits prod.splits option.splits if_splits)

lemma step_resets_flag:
  "step_resets env pre w \<Longrightarrow> automatic_reset env"
proof -
  assume a: "step_resets env pre w"
  obtain r env1 where t: "stage_transition env pre = (r, env1)"
    by (cases "stage_transition env pre")
  from a t stage_transition_frame(5) [OF t] NavigateEnv_step_resets_flag show ?thesis
    by (cases "env_class env") (auto simp: step_resets_def split: sum.splits)
qed

lemma step_resets_terminal:
  assumes "step_resets env pre w"
    and "step env action pre w rin = Some (Inr (obs, r, fin, info), env')"
  shows "fin"
  using assms NavigateEnv_step_resets_terminal
  by (cases "env_class env")
    (auto simp: step_def step_resets_def InteractiveNavigateEnv_step_def
      split: sum.splits prod.splits)

lemma interactive_step_no_reset:
  assumes "env_class env = InteractiveNavigateEnv" and "\<not> step_resets env pre w"
  shows "\<exists>out env'. step env action pre w rin = Some (out, env') \<and>
           stage env' = stage (snd (stage_transition env pre)) \<and>
           prev_stage env' = stage env \<and> automatic_reset env' = automatic_reset env \<and>
           env_class env' = InteractiveNavigateEnv"
proof -
  obtain r env1 where t: "stage_transition env pre = (r, env1)"
    by (cases "stage_transition env pre")
  note f = stage_transition_frame [OF t]
  show ?thesis
  proof (cases r)
    case (Inl e)
    with t f assms show ?thesis
      by (simp add: step_def InteractiveNavigateEnv_step_def)
  next
    case (Inr u)
    with assms t have "\<not> NavigateEnv_step_resets env1 w"
      by (simp add: step_resets_def)
    from NavigateEnv_step_no_reset [OF this, of action rin] Inr t f assms(1) show ?thesis
      by (auto simp: step_def InteractiveNavigateEnv_step_def)
  qed
qed

lemma step_resets_reaches_reset:
  assumes "env_class env = InteractiveNavigateEnv"
  shows "step_resets env pre w \<longleftrightarrow>
         step env action pre w \<lparr>start_trials = [], target_samples = ts, placed = pw\<rparr> = None"
proof
  assume a: "step_resets env pre w"
  let ?rin = "\<lparr>start_trials = [], target_samples = ts, placed = pw\<rparr>"
  obtain r env1 where t0: "stage_transition env pre = (r, env1)"
    by (cases "stage_transition env pre")
  with a assms have t: "stage_transition env pre = (Inr (), env1)"
    and n: "NavigateEnv_step_resets env1 w"
    by (auto simp: step_resets_def split: sum.splits)
  from n obtain state where st: "get_state env1 w (run_simulation env1 w) = Inr state"
    by (auto simp: NavigateEnv_step_resets_def Let_def split: sum.splits)
  obtain rr env2 where rw0: "get_reward env1 w (run_simulation env1 w) = (rr, env2)"
    by (cases "get_reward env1 w (run_simulation env1 w)")
  obtain tt env3 where tm0: "get_termination env2 w = (tt, env3)"
    by (cases "get_termination env2 w")
  from n st rw0 obtain reward where rr: "rr = Inr reward"
    by (cases rr) (auto simp: NavigateEnv_step_resets_def Let_def)
  with rw0 have rw: "get_reward env1 w (run_simulation env1 w) = (Inr reward, env2)"
    by simp
  from n st rw tm0 obtain fin info where tt: "tt = Inr (fin, info)"
    by (cases tt) (auto simp: NavigateEnv_step_resets_def Let_def)
  with n st rw tm0 have fin: "fin" and au: "automatic_reset env3"
    by (auto simp: NavigateEnv_step_resets_def Let_def)
  with tt tm0 have tm: "get_termination env2 w = (Inr (True, info), env3)"
    by simp
  have "env_class env3 = InteractiveNavigateEnv"
    using stage_transition_frame(1) [OF t] assms
      get_reward_frame [of env1 w "run_simulation env1 w"] rw
      get_termination_frame [of env2 w] tm
    by simp
  then have "reset env3 ?rin = None"
    using InteractiveNavigateEnv_reset_result [of env3 ?rin] by (simp add: reset_def)
  with t st rw tm au assms show "step env action pre w ?rin = None"
    by (simp add: step_def InteractiveNavigateEnv_step_def NavigateEnv_step_def)
next
  assume "step env action pre w \<lparr>start_trials = [], target_samples = ts, placed = pw\<rparr> = None"
  with interactive_step_no_reset [OF assms, of pre w action
      "\<lparr>start_trials = [], target_samples = ts, placed = pw\<rparr>"]
  show "step_resets env pre w"
    by auto
qed

lemma run_episode_stages:
  assumes "env_class env = InteractiveNavigateEnv"
    and "stage env \<le> stage_get_to_target_pos"
  shows "sorted (map stage (env # run_episode env inputs)) \<and>
         list_all (\<lambda>e. stage e \<le> stage_get_to_target_pos) (run_episode env inputs)"
  using assms
proof (induction inputs arbitrary: env)
  case Nil
  then show ?case by simp
next
  case (Cons i rest)
  show ?case
  proof (cases "step_resets env (before_ticks i) (after_ticks i)")
    case True
    then show ?thesis by simp
  next
    case False
    from interactive_step_no_reset [OF Cons.prems(1) False] obtain out env' where
      s: "step env (action_of i) (before_ticks i) (after_ticks i) (reset_of i) = Some (out, env')"
      and st: "stage env' = stage (snd (stage_transition env (before_ticks i)))"
      and c: "env_class env' = InteractiveNavigateEnv"
      by blast
    from stage_transition_bounds [OF Cons.prems(2), of "before_ticks i"] st
    have le: "stage env \<le> stage env'" and b: "stage env' \<le> stage_get_to_target_pos"
      by simp_all
    from Cons.IH [OF c b] have ih:
      "sorted (map stage (env' # run_episode env' rest))"
      "list_all (\<lambda>e. stage e \<le> stage_get_to_target_pos) (run_episode env' rest)"
      by simp_all
    have "\<forall>e\<in>set (run_episode env' rest). stage env' \<le> stage e"
      using ih(1) by simp
    with le have "\<forall>x\<in>set (map stage (env' # run_episode env' rest)). stage env \<le> x"
      by (auto intro: le_trans)
    with ih s b False show ?thesis
      by simp
  qed
qed

lemma run_episode_without_flag:
  assumes "env_class env = InteractiveNavigateEnv" and "\<not> automatic_reset env"
  shows "run_episode env inputs = run_steps env inputs"
  using assms
proof (induction inputs arbitrary: env)
  case Nil
  then show ?case by simp
next
  case (Cons i rest)
  have n: "\<not> step_resets env (before_ticks i) (after_ticks i)"
    using step_resets_flag Cons.prems(2) by blast
  from interactive_step_no_reset [OF Cons.prems(1) n] obtain out env' where
    s: "step env (action_of i) (before_ticks i) (after_ticks i) (reset_of i) = Some (out, env')"
    and a: "automatic_reset env' = automatic_reset env"
    and c: "env_class env' = InteractiveNavigateEnv"
    by blast
  from Cons.IH [OF c] a Cons.prems(2) s n show ?case
    by simp
qed

lemma get_reward_settings:
  "config (snd (get_reward env w links)) = config env \<and>
   target_pos (snd (get_reward env w links)) = target_pos env \<and>
   dist_tol (snd (get_reward env w links)) = dist_tol env \<and>
   max_step (snd (get_reward env w links)) = max_step env \<and>
   current_step (snd (get_reward env w links)) = current_step env \<and>
   potential_reward_weight (snd (get_reward env w links)) = potential_reward_weight env"
proof (cases "env_class env = InteractiveNavigateEnv")
  case True
  show ?thesis
  proof (cases "stage env \<noteq> prev_stage env")
    case True
    with \<open>env_class env = InteractiveNavigateEnv\<close> show ?thesis
      by (simp add: get_reward_interactive InteractiveNavigateEnv_get_reward_def Let_def
          split: sum.splits)
  next
    case False
    with \<open>env_class env = InteractiveNavigateEnv\<close> show ?thesis
      by (simp add: get_reward_interactive InteractiveNavigateEnv_get_reward_def Let_def
          split: sum.splits)
  qed
next
  case False
  then show ?thesis
    by (simp add: get_reward_base NavigateEnv_get_reward_def Let_def split: sum.splits)
qed

lemma goal_distance_settings:
  "config a = config b \<Longrightarrow> target_pos a = target_pos b \<Longrightarrow>
   goal_distance a w = goal_distance b w"
  by (simp add: goal_distance_def get_position_of_interest_def split: sum.splits option.splits)

lemma not_terminal_no_reset:
  assumes "goal_distance env w = Inr d" and "\<not> d < dist_tol env"
    and "\<not> vec3_z (robot_position w) > 0.1"
    and "\<not> max_step env \<le> enat (current_step env + 1)"
  shows "\<not> NavigateEnv_step_resets env w"
proof -
  obtain rr env2 where rw: "get_reward env w (run_simulation env w) = (rr, env2)"
    by (cases "get_reward env w (run_simulation env w)")
  from get_reward_settings [of env w "run_simulation env w"] rw
  have s: "config env2 = config env" "target_pos env2 = target_pos env"
    "dist_tol env2 = dist_tol env" "max_step env2 = max_step env"
    "current_step env2 = current_step env"
    by simp_all
  have "goal_distance env2 w = Inr d"
    using goal_distance_settings [OF s(1,2)] assms(1) by simp
  with assms(2,3,4) s have "fst (get_termination env2 w) = Inr (False, [])"
    by (simp add: get_termination_def Let_def)
  with rw show ?thesis
    by (auto simp: NavigateEnv_step_resets_def Let_def split: sum.splits prod.splits)
qed

lemma interactive_get_state_returns:
  assumes "env_class env = InteractiveNavigateEnv" and "additional_states_dim env = 7"
    and "auxiliary_sensor_dim env = 42" and "length (robot_calc_state w) = 46"
    and "\<not> normalize_observation env"
    and "''scan'' \<notin> set (outputs env)" and "''rgb_filled'' \<notin> set (outputs env)"
  shows "\<exists>obs. get_state env w links = Inr obs"
proof -
  obtain roll pitch yaw0 where rpy0: "robot_rpy w = (roll, pitch, yaw0)"
    by (cases "robot_rpy w")
  let ?xs = "take 2 (vec3_list (robot_position w)) @
      vec3_list (rotate_vector_3d w
        (vec3_sub (robot_end_effector_position w) (robot_position w)) roll pitch yaw0) @
      [yaw0, door_joint_state w]"
  have len: "length ?xs = 7"
    by simp
  then have "list_all (\<lambda>i. i < length ?xs) [5, 6]"
    by simp
  from wrap_to_pi_returns [OF this] len obtain ys where
    ys: "wrap_to_pi ?xs [5, 6] = Inr ys" "length ys = 7"
    by auto
  then have a: "InteractiveNavigateEnv_get_additional_states env w = Inr ys"
    using rpy0 assms(2)
    by (simp add: InteractiveNavigateEnv_get_additional_states_def Let_def)
  obtain r p yaw where rpy: "robot_rpy w = (r, p, yaw)"
    by (cases "robot_rpy w")
  have "\<exists>aux. InteractiveNavigateEnv_get_auxiliary_sensor env w = Inr aux"
    using assms(3,4) rpy
    by (simp add: InteractiveNavigateEnv_get_auxiliary_sensor_def Let_def wrap_to_pi_def)
  then obtain aux where b: "InteractiveNavigateEnv_get_auxiliary_sensor env w = Inr aux"
    by blast
  from a b assms ys(2) show ?thesis
    by (simp add: get_state_def InteractiveNavigateEnv_get_state_def NavigateEnv_get_state_def
        get_additional_states_def get_auxiliary_sensor_def Let_def)
qed

lemma door_resetting_reset:
  "\<exists>obs. reset (door_env\<lparr>automatic_reset := True\<rparr>) start_input =
     Some (Inr obs,
           door_env\<lparr>automatic_reset := True, trace := [ResetJointState 0 0], stage := 0,
                    prev_stage := 0, initial_pos := (0, 0, 0),
                    target_pos := (- 100, - 100, 0), initial_potential := 2,
                    normalized_potential := 1, current_step := 0\<rparr>)"
  by (simp add: reset_def InteractiveNavigateEnv_reset_def NavigateEnv_reset_def
      reset_interactive_objects_def reset_initial_and_target_pos_def
      InteractiveNavigateEnv_reset_initial_and_target_pos_def start_input_def
      door_env_simps Let_def get_potential_def InteractiveNavigateEnv_get_potential_def
      stage_get_to_door_handle_def start_world_simps l2_distance_def vec3_sub_def l2_norm_x
      get_state_def InteractiveNavigateEnv_get_state_def NavigateEnv_get_state_def
      set_channel_def
      get_additional_states_def InteractiveNavigateEnv_get_additional_states_def
      get_auxiliary_sensor_def InteractiveNavigateEnv_get_auxiliary_sensor_def
      stage_open_door_def vec3_list_def wrap_to_pi_def enumerate_eq_zip wrap_angle_0)

lemma door_resetting_eq:
  "door_resetting = door_started\<lparr>automatic_reset := True\<rparr>"
  using door_resetting_reset by (auto simp: door_resetting_def door_started_eq)

lemma door_resetting_grasp:
  "stage_transition door_resetting grasp_world =
     (Inr (),
      door_resetting\<lparr>prev_stage := 0,
                     trace := [ResetJointState 0 0, CreateConstraint 1, ChangeConstraint 1 500,
                               Print ''stage open_door''],
                     cid := Some 1, stage := 1\<rparr>)"
  using pi_gt_zero
  by (simp add: stage_transition_def Let_def door_resetting_eq door_started_simps
      grasp_world_simps stage_get_to_door_handle_def stage_open_door_def vec3_sub_def l2_norm_x)

lemma door_resetting_continues:
  "\<not> step_resets door_resetting grasp_world grasp_world"
proof -
  let ?env = "door_resetting\<lparr>prev_stage := 0,
                     trace := [ResetJointState 0 0, CreateConstraint 1, ChangeConstraint 1 500,
                               Print ''stage open_door''],
                     cid := Some 1, stage := 1\<rparr>"
  have g: "goal_distance ?env grasp_world =
             Inr (l2_distance (- 100, - 100, 0) (2.9, 0, 0))"
    by (simp add: goal_distance_def get_position_of_interest_def door_resetting_eq
        door_started_simps grasp_world_simps)
  have far: "\<not> l2_distance (- 100, - 100, 0) (2.9, 0, 0) < dist_tol ?env"
    using l2_norm_ge_x [of "- 102.9" "- 100" 0]
    by (simp add: l2_distance_def vec3_sub_def door_resetting_eq door_started_simps)
  have "\<not> NavigateEnv_step_resets ?env grasp_world"
    by (rule not_terminal_no_reset [OF g far])
      (simp_all add: door_resetting_eq door_started_simps grasp_world_simps vec3_z_def)
  moreover have "env_class door_resetting = InteractiveNavigateEnv"
    by (simp add: door_resetting_eq door_started_simps)
  ultimately show ?thesis
    by (simp add: step_resets_def door_resetting_grasp)
qed

text \<open>
  C6, amended: in the multi-stage variant the stage never decreases within an episode and
  stays among the three stages, but one \<^verbatim>\<open>step\<close> call can advance it by two. An episode is
  the sequence of \<^verbatim>\<open>step\<close> calls up to the first one that reaches the automatic reset of
  \<^verbatim>\<open>NavigateEnv.step\<close> (\<^verbatim>\<open>done and self.automatic_reset\<close>), that call excluded;
  \<^verbatim>\<open>run_episode\<close> collects the objects these calls leave. Whatever the value of the
  \<^verbatim>\<open>automatic_reset\<close> flag: the stages along an episode are sorted and at most
  get\_to\_target\_pos; every call that does not reach the automatic reset returns (by value
  or by exception) and leaves a stage between the old one and the old one plus two, with
  \<^verbatim>\<open>prev_stage\<close> the old stage; this holds in particular for every call that returns
  \<^verbatim>\<open>done = False\<close>. On an object built without the flag no call reaches the automatic
  reset, and the episode is every call made.
\<close>

theorem stage_never_decreases:
  assumes "env_class env = InteractiveNavigateEnv"
    and "stage env \<le> stage_get_to_target_pos"
  shows
    "sorted (map stage (env # run_episode env inputs)) \<and>
     list_all (\<lambda>e. stage e \<le> stage_get_to_target_pos) (run_episode env inputs) \<and>
     (\<not> step_resets env pre w \<longrightarrow>
        (\<exists>out env'. step env action pre w rin = Some (out, env') \<and>
           stage env \<le> stage env' \<and> stage env' \<le> stage env + 2 \<and>
           stage env' \<le> stage_get_to_target_pos \<and> prev_stage env' = stage env)) \<and>
     (\<forall>obs r info env'. step env action pre w rin = Some (Inr (obs, r, False, info), env') \<longrightarrow>
        stage env \<le> stage env' \<and> stage env' \<le> stage env + 2 \<and>
        stage env' \<le> stage_get_to_target_pos \<and> prev_stage env' = stage env) \<and>
     (\<not> automatic_reset env \<longrightarrow>
        \<not> step_resets env pre w \<and> run_episode env inputs = run_steps env inputs \<and>
        length (run_steps env inputs) = length inputs \<and>
        sorted (map stage (env # run_steps env inputs)) \<and>
        list_all (\<lambda>e. stage e \<le> stage_get_to_target_pos) (run_steps env inputs))"
proof -
  have one: "\<exists>out env'. step env action pre w rin = Some (out, env') \<and>
           stage env \<le> stage env' \<and> stage env' \<le> stage env + 2 \<and>
           stage env' \<le> stage_get_to_target_pos \<and> prev_stage env' = stage env"
    if "\<not> step_resets env pre w"
    using interactive_step_no_reset [OF assms(1) that, of action rin]
      stage_transition_bounds [OF assms(2), of pre]
    by auto
  have two: "stage env \<le> stage env' \<and> stage env' \<le> stage env + 2 \<and>
        stage env' \<le> stage_get_to_target_pos \<and> prev_stage env' = stage env"
    if "step env action pre w rin = Some (Inr (obs, r, False, info), env')"
    for obs r info env'
  proof -
    have "\<not> step_resets env pre w"
      using step_resets_terminal [OF _ that] by blast
    from one [OF this] that show ?thesis
      by auto
  qed
  have three: "\<not> step_resets env pre w \<and> run_episode env inputs = run_steps env inputs \<and>
        length (run_steps env inputs) = length inputs \<and>
        sorted (map stage (env # run_steps env inputs)) \<and>
        list_all (\<lambda>e. stage e \<le> stage_get_to_target_pos) (run_steps env inputs)"
    if "\<not> automatic_reset env"
    using run_steps_stages [OF assms(1) that assms(2), of inputs]
      run_episode_without_flag [OF assms(1) that, of inputs] step_resets_flag [of env pre w] that
    by auto
  from run_episode_stages [OF assms, of inputs] one two three show ?thesis
    by blast
qed

theorem stage_never_decreases_witness:
  "env_class door_resetting = InteractiveNavigateEnv \<and>
   automatic_reset door_resetting \<and>
   stage door_resetting = stage_get_to_door_handle \<and>
   \<not> step_resets door_resetting grasp_world grasp_world \<and>
   sorted (map stage (door_resetting # run_episode door_resetting
     [\<lparr>action_of = [0, 0], before_ticks = grasp_world, after_ticks = grasp_world,
       reset_of = start_input\<rparr>])) \<and>
   map stage (door_resetting # run_episode door_resetting
     [\<lparr>action_of = [0, 0], before_ticks = grasp_world, after_ticks = grasp_world,
       reset_of = start_input\<rparr>]) = [stage_get_to_door_handle, stage_open_door] \<and>
   (\<exists>out env'. step door_resetting [0, 0] grasp_world grasp_world start_input =
        Some (out, env') \<and> stage env' = stage_open_door \<and>
        prev_stage env' = stage_get_to_door_handle) \<and>
   \<not> automatic_reset door_started \<and>
   run_episode door_started
     [\<lparr>action_of = [0, 0], before_ticks = grasp_world, after_ticks = grasp_world,
       reset_of = start_input\<rparr>] =
   run_steps door_started
     [\<lparr>action_of = [0, 0], before_ticks = grasp_world, after_ticks = grasp_world,
       reset_of = start_input\<rparr>] \<and>
   sorted (map stage (door_started # run_steps door_started
     [\<lparr>action_of = [0, 0], before_ticks = grasp_world, after_ticks = grasp_world,
       reset_of = start_input\<rparr>])) \<and>
   map stage (door_started # run_steps door_started
     [\<lparr>action_of = [0, 0], before_ticks = grasp_world, after_ticks = grasp_world,
       reset_of = start_input\<rparr>]) = [stage_get_to_door_handle, stage_open_door]"
proof -
  let ?i = "\<lparr>action_of = [0, 0], before_ticks = grasp_world, after_ticks = grasp_world,
       reset_of = start_input\<rparr>"
  have cls: "env_class door_resetting = InteractiveNavigateEnv"
    and flag: "automatic_reset door_resetting"
    and st: "stage door_resetting \<le> stage_get_to_target_pos"
    and st0: "stage door_resetting = stage_get_to_door_handle"
    by (simp_all add: door_resetting_eq door_started_simps stage_get_to_door_handle_def)
  have cls': "env_class door_started = InteractiveNavigateEnv"
    and flag': "\<not> automatic_reset door_started"
    and st': "stage door_started \<le> stage_get_to_target_pos"
    and st0': "stage door_started = stage_get_to_door_handle"
    by (simp_all add: door_started_simps stage_get_to_door_handle_def)
  from interactive_step_no_reset [OF cls door_resetting_continues, of "[0, 0]" start_input]
  have one: "\<exists>out env'. step door_resetting [0, 0] grasp_world grasp_world start_input =
        Some (out, env') \<and> stage env' = stage_open_door \<and>
        prev_stage env' = stage_get_to_door_handle"
    by (auto simp: door_resetting_grasp stage_open_door_def st0)
  then have "map stage (run_episode door_resetting [?i]) = [stage_open_door]"
    using door_resetting_continues by auto
  with st0 have two:
    "map stage (door_resetting # run_episode door_resetting [?i]) =
       [stage_get_to_door_handle, stage_open_door]"
    by simp
  have "map stage (run_steps door_started [?i]) = [stage_open_door]"
    using run_steps_single [OF cls' flag', of ?i] door_grasp
    by (simp add: stage_open_door_def)
  with st0' have three:
    "map stage (door_started # run_steps door_started [?i]) =
       [stage_get_to_door_handle, stage_open_door]"
    by simp
  have four: "sorted (map stage (door_resetting # run_episode door_resetting [?i]))"
    using stage_never_decreases [OF cls st, of "[?i]" grasp_world grasp_world "[0, 0]"
      start_input]
    by blast
  have five: "run_episode door_started [?i] = run_steps door_started [?i] \<and>
      sorted (map stage (door_started # run_steps door_started [?i]))"
    using stage_never_decreases [OF cls' st', of "[?i]" grasp_world grasp_world "[0, 0]"
      start_input] flag'
    by blast
  from cls flag st0 door_resetting_continues four two one flag' five three
  show ?thesis
    by blast
qed

subsection \<open>The shaping term across two steps\<close>

lemma NavigateEnv_step_tracker:
  assumes "NavigateEnv_step env action w rin = Some (Inr (obs, r, fin, info), env')"
    and "\<not> (fin \<and> automatic_reset env)"
  shows "\<exists>env2. get_reward env w (run_simulation env w) = (Inr r, env2) \<and>
           env' = snd (get_termination env2 w)"
proof -
  obtain rr env1 where r: "get_reward env w (run_simulation env w) = (rr, env1)"
    by (cases "get_reward env w (run_simulation env w)")
  obtain t env2 where t: "get_termination env1 w = (t, env2)"
    by (cases "get_termination env1 w")
  have "automatic_reset env2 = automatic_reset env"
    using get_reward_frame [of env w "run_simulation env w"] get_termination_frame [of env1 w]
      r t by simp
  with assms r t show ?thesis
    by (auto simp: NavigateEnv_step_def Let_def
        split: sum.splits prod.splits option.splits if_splits)
qed

lemma interactive_step_tracker:
  assumes "env_class env0 = InteractiveNavigateEnv"
    and "step env0 action pre w rin = Some (Inr (obs, r, fin, info), env1)"
    and "\<not> (fin \<and> automatic_reset env0)"
  shows "\<exists>env env2. stage_transition env0 pre = (Inr (), env) \<and>
           get_reward env w (run_simulation env w) = (Inr r, env2) \<and>
           env1 = snd (get_termination env2 w)"
proof -
  obtain u env where t: "stage_transition env0 pre = (u, env)"
    by (cases "stage_transition env0 pre")
  from assms(1,2) t have u: "u = Inr ()"
    and s: "NavigateEnv_step env action w rin = Some (Inr (obs, r, fin, info), env1)"
    by (auto simp: step_def InteractiveNavigateEnv_step_def split: sum.splits)
  have "\<not> (fin \<and> automatic_reset env)"
    using stage_transition_frame(5) [OF t] assms(3) by simp
  from NavigateEnv_step_tracker [OF s this] t u show ?thesis
    by simp
qed

lemma get_termination_tracker:
  "initial_potential (snd (get_termination env w)) = initial_potential env \<and>
   normalized_potential (snd (get_termination env w)) = normalized_potential env \<and>
   potential_reward_weight (snd (get_termination env w)) = potential_reward_weight env \<and>
   target_pos (snd (get_termination env w)) = target_pos env \<and>
   config (snd (get_termination env w)) = config env"
  by (simp add: get_termination_def Let_def split: sum.splits)

lemma stage_transition_tracker:
  assumes "stage_transition env0 pre = (r, env)"
  shows "initial_potential env = initial_potential env0"
    and "normalized_potential env = normalized_potential env0"
    and "potential_reward_weight env = potential_reward_weight env0"
  using assms
  by (auto simp: stage_transition_def Let_def split: if_splits option.splits)

lemma get_potential_settings:
  "env_class a = env_class b \<Longrightarrow> stage a = stage b \<Longrightarrow> target_pos a = target_pos b \<Longrightarrow>
   config a = config b \<Longrightarrow> get_potential a w = get_potential b w"
  using goal_distance_settings [of a b w]
  by (simp add: get_potential_def NavigateEnv_get_potential_def
      InteractiveNavigateEnv_get_potential_def split: env_class.splits)

lemma shaping_term_decrease:
  assumes "normalized_potential env = p1 / initial_potential env"
    and "p2 < p1" and "0 < initial_potential env" and "0 < potential_reward_weight env"
  shows "0 < shaping_term env p2"
proof -
  have "p2 / initial_potential env < p1 / initial_potential env"
    using assms(2,3) by (simp add: divide_strict_right_mono)
  with assms(1,4) show ?thesis
    by (simp add: shaping_term_def)
qed

text \<open>
  C8, amended: take two consecutive \<^verbatim>\<open>step\<close> calls of the multi-stage variant. The
  earlier one returns and does not end in the automatic reset (\<^verbatim>\<open>done and
  self.automatic_reset\<close>, which would restart the tracker); the stage machine at the head
  of the later one leaves the stage as it is. If the potential of that stage -- the
  distance of the end effector to the door handle, the offset of the door angle, or the
  distance of the robot to the goal -- is strictly smaller in the world of the later step
  than in the world of the earlier one, and the weight of the shaping term and the
  baseline \<open>initial_potential\<close> are positive, then the tracker holds the earlier potential
  over the baseline, the shaping term that \<^verbatim>\<open>get_reward\<close> computes on the later step is
  strictly positive, and it is the first summand of the reward that \<^verbatim>\<open>get_reward\<close> and the
  later \<^verbatim>\<open>step\<close> return. In the base variant \<^verbatim>\<open>step\<close> raises before it computes a reward;
  there the same holds of two consecutive calls of \<^verbatim>\<open>get_reward\<close>, the potential being
  the distance of the position of interest to the goal.
\<close>

theorem shaping_term_positive:
  "(env_class env0 = InteractiveNavigateEnv \<and>
    step env0 action1 pre1 w1 rin1 = Some (Inr (obs1, r1, fin1, info1), env1) \<and>
    \<not> (fin1 \<and> automatic_reset env0) \<and>
    stage_transition env1 pre2 = (Inr (), env) \<and> stage env = stage env1 \<and>
    get_potential env w1 = Inr p1 \<and> get_potential env w2 = Inr p2 \<and> p2 < p1 \<and>
    0 < initial_potential env \<and> 0 < potential_reward_weight env \<and>
    link_ids_off_handle env (run_simulation env w2) = Inr ids \<and>
    goal_distance env w2 = Inr d \<longrightarrow>
      normalized_potential env = p1 / initial_potential env \<and>
      0 < shaping_term env p2 \<and>
      get_reward env w2 (run_simulation env w2) =
        (Inr (shaping_term env p2 + electricity_term env w2 + stall_torque_term env w2 +
              collision_term env ids + success_bonus env d - failure_penalty env w2),
         env\<lparr>normalized_potential := p2 / initial_potential env\<rparr>) \<and>
      (\<forall>obs r fin info env'.
         step env1 action2 pre2 w2 rin2 = Some (Inr (obs, r, fin, info), env') \<longrightarrow>
         r = shaping_term env p2 + electricity_term env w2 + stall_torque_term env w2 +
             collision_term env ids + success_bonus env d - failure_penalty env w2)) \<and>
   (env_class b0 \<noteq> InteractiveNavigateEnv \<and>
    get_reward b0 v1 links1 = (Inr s1, b1) \<and>
    get_potential b1 v1 = Inr q1 \<and> get_potential b1 v2 = Inr q2 \<and> q2 < q1 \<and>
    0 < initial_potential b1 \<and> 0 < potential_reward_weight b1 \<and>
    link_ids links2 = Inr ids2 \<longrightarrow>
      normalized_potential b1 = q1 / initial_potential b1 \<and>
      0 < shaping_term b1 q2 \<and>
      get_reward b1 v2 links2 =
        (Inr (slack_reward b1 + shaping_term b1 q2 +
              0 * electricity_reward_weight b1 + 0 * stall_torque_reward_weight b1 +
              collision_term b1 ids2 + success_bonus b1 q2),
         b1\<lparr>normalized_potential := q2 / initial_potential b1\<rparr>))"
proof (intro conjI impI; (elim conjE)?)
  assume cls: "env_class env0 = InteractiveNavigateEnv"
    and earlier: "step env0 action1 pre1 w1 rin1 = Some (Inr (obs1, r1, fin1, info1), env1)"
    and cont: "\<not> (fin1 \<and> automatic_reset env0)"
    and later: "stage_transition env1 pre2 = (Inr (), env)"
    and same: "stage env = stage env1"
    and p1: "get_potential env w1 = Inr p1" and p2: "get_potential env w2 = Inr p2"
    and less: "p2 < p1"
    and ip: "0 < initial_potential env" and weight: "0 < potential_reward_weight env"
    and ids: "link_ids_off_handle env (run_simulation env w2) = Inr ids"
    and d: "goal_distance env w2 = Inr d"
  from interactive_step_tracker [OF cls earlier cont] obtain envA envB where
    tA: "stage_transition env0 pre1 = (Inr (), envA)"
    and rw: "get_reward envA w1 (run_simulation envA w1) = (Inr r1, envB)"
    and e1: "env1 = snd (get_termination envB w1)"
    by blast
  have clsA: "env_class envA = InteractiveNavigateEnv"
    using stage_transition_frame(1) [OF tA] cls by simp
  have fB: "env_class envB = InteractiveNavigateEnv" "stage envB = stage envA"
    using get_reward_frame [of envA w1 "run_simulation envA w1"] rw clsA by simp_all
  have sB: "config envB = config envA" "target_pos envB = target_pos envA"
    using get_reward_settings [of envA w1 "run_simulation envA w1"] rw by simp_all
  have f1: "env_class env1 = InteractiveNavigateEnv" "stage env1 = stage envB"
    using get_termination_frame [of envB w1] e1 fB by simp_all
  have s1: "initial_potential env1 = initial_potential envB"
    "normalized_potential env1 = normalized_potential envB"
    "target_pos env1 = target_pos envB" "config env1 = config envB"
    using get_termination_tracker [of envB w1] e1 by simp_all
  have cls2: "env_class env = InteractiveNavigateEnv"
    using stage_transition_frame(1) [OF later] f1 by simp
  have s2: "config env = config env1" "target_pos env = target_pos env1"
    "initial_potential env = initial_potential env1"
    "normalized_potential env = normalized_potential env1"
    using stage_transition_frame(2,3) [OF later] stage_transition_tracker(1,2) [OF later]
    by simp_all
  have "get_potential envB w1 = get_potential env w1"
    by (rule get_potential_settings) (simp_all add: fB cls2 same f1 s1 s2)
  with p1 have pB: "get_potential envB w1 = Inr p1"
    by simp
  have "initial_potential envB \<noteq> 0"
    using ip s1 s2 by simp
  from get_reward_normalized [OF rw pB this]
  show tracker: "normalized_potential env = p1 / initial_potential env"
    using s1 s2 by simp
  from shaping_term_decrease [OF tracker less ip weight]
  show "0 < shaping_term env p2" .
  have unchanged: "stage env = prev_stage env"
    using stage_transition_frame(6) [OF later] same by simp
  show reward: "get_reward env w2 (run_simulation env w2) =
        (Inr (shaping_term env p2 + electricity_term env w2 + stall_torque_term env w2 +
              collision_term env ids + success_bonus env d - failure_penalty env w2),
         env\<lparr>normalized_potential := p2 / initial_potential env\<rparr>)"
    using InteractiveNavigateEnv_get_reward_shaping [OF p2 ids d unchanged]
    by (simp add: get_reward_interactive [OF cls2])
  show "\<forall>obs r fin info env'.
         step env1 action2 pre2 w2 rin2 = Some (Inr (obs, r, fin, info), env') \<longrightarrow>
         r = shaping_term env p2 + electricity_term env w2 + stall_torque_term env w2 +
             collision_term env ids + success_bonus env d - failure_penalty env w2"
  proof (intro allI impI)
    fix obs r fin info env'
    assume "step env1 action2 pre2 w2 rin2 = Some (Inr (obs, r, fin, info), env')"
    from InteractiveNavigateEnv_step_reward [OF f1(1) this] later reward
    show "r = shaping_term env p2 + electricity_term env w2 + stall_torque_term env w2 +
             collision_term env ids + success_bonus env d - failure_penalty env w2"
      by auto
  qed
next
  assume cls: "env_class b0 \<noteq> InteractiveNavigateEnv"
    and rw: "get_reward b0 v1 links1 = (Inr s1, b1)"
    and q1: "get_potential b1 v1 = Inr q1" and q2: "get_potential b1 v2 = Inr q2"
    and less: "q2 < q1"
    and ip: "0 < initial_potential b1" and weight: "0 < potential_reward_weight b1"
    and ids: "link_ids links2 = Inr ids2"
  have cls1: "env_class b1 \<noteq> InteractiveNavigateEnv"
    using get_reward_frame [of b0 v1 links1] rw cls by simp
  from ip have "initial_potential b1 \<noteq> 0"
    by simp
  from get_reward_normalized [OF rw q1 this]
  show tracker: "normalized_potential b1 = q1 / initial_potential b1" .
  from shaping_term_decrease [OF tracker less ip weight]
  show "0 < shaping_term b1 q2" .
  have g: "goal_distance b1 v2 = Inr q2"
    using q2 cls1
    by (cases "env_class b1") (simp_all add: get_potential_def NavigateEnv_get_potential_def)
  show "get_reward b1 v2 links2 =
        (Inr (slack_reward b1 + shaping_term b1 q2 +
              0 * electricity_reward_weight b1 + 0 * stall_torque_reward_weight b1 +
              collision_term b1 ids2 + success_bonus b1 q2),
         b1\<lparr>normalized_potential := q2 / initial_potential b1\<rparr>)"
    using NavigateEnv_get_reward_sum [OF q2 ids g]
    by (simp add: get_reward_base [OF cls1])
qed

lemma NavigateEnv_step_returns:
  assumes "get_state env w (run_simulation env w) = Inr obs"
    and "get_reward env w (run_simulation env w) = (Inr r, env2)"
    and "get_termination env2 w = (Inr (fin, info), env3)"
    and "\<not> (fin \<and> automatic_reset env3)"
  shows "NavigateEnv_step env action w rin = Some (Inr (obs, r, fin, info), env3)"
  using assms by (auto simp: NavigateEnv_step_def Let_def)

lemma reach_world_simps:
  "robot_position reach_world = (1, 0, 0)"
  "robot_rpy reach_world = (0, 0, 0)"
  "robot_end_effector_position reach_world = (2, 0, 0)"
  "rotate_vector_3d reach_world = (\<lambda>v r p y. v)"
  "joint_speed_torque reach_world = [(0, 0), (0, 0)]"
  "robot_calc_state reach_world = replicate 46 0"
  "has_scan_link reach_world = False"
  "door_joint_state reach_world = 0"
  "door_handle_link_pos reach_world = (3, 0, 0)"
  "jr_end_effector_link_pos reach_world = (2, 0, 0)"
  "contact_points reach_world = (\<lambda>tick. [])"
  by (simp_all add: reach_world_def standing_world_def)

lemma door_started_stays:
  "stage_transition door_started start_world = (Inr (), door_started)"
  by (simp add: stage_transition_def Let_def door_started_simps start_world_simps
      stage_get_to_door_handle_def stage_open_door_def vec3_sub_def l2_norm_x door_started_eq)

lemma door_started_get_reward:
  "get_reward door_started start_world (run_simulation door_started start_world) =
     (Inr 0, door_started)"
  using InteractiveNavigateEnv_get_reward_shaping [OF door_started_potential _
      door_started_goal_distance, of "[]" "[]"]
  by (simp add: get_reward_interactive door_started_simps door_started_terms
      door_started_unchanged run_simulation_no_contact start_world_simps)

lemma door_started_get_termination:
  "get_termination door_started start_world =
     (Inr (False, []), door_started\<lparr>current_step := 1\<rparr>)"
  using door_started_goal_distance door_started_far
  by (simp add: get_termination_def Let_def door_started_simps start_world_simps vec3_z_def)

lemma door_first_step:
  "\<exists>obs. step door_started [0, 0] start_world start_world start_input =
     Some (Inr (obs, 0, False, []), door_started\<lparr>current_step := 1\<rparr>)"
proof -
  obtain obs where
    "get_state door_started start_world (run_simulation door_started start_world) = Inr obs"
    using interactive_get_state_returns [of door_started start_world
        "run_simulation door_started start_world"]
    by (auto simp: door_started_simps start_world_simps)
  from NavigateEnv_step_returns [OF this door_started_get_reward door_started_get_termination,
      of "[0, 0]" start_input]
  show ?thesis
    by (simp add: step_def InteractiveNavigateEnv_step_def door_started_simps
        door_started_stays)
qed

lemma door_second_stays:
  "stage_transition (door_started\<lparr>current_step := 1\<rparr>) reach_world =
     (Inr (), door_started\<lparr>current_step := 1\<rparr>)"
  by (simp add: stage_transition_def Let_def door_started_simps reach_world_simps
      stage_get_to_door_handle_def stage_open_door_def vec3_sub_def l2_norm_x door_started_eq)

lemma door_second_potential:
  "get_potential (door_started\<lparr>current_step := 1\<rparr>) start_world = Inr 2"
  "get_potential (door_started\<lparr>current_step := 1\<rparr>) reach_world = Inr 1"
  "goal_distance (door_started\<lparr>current_step := 1\<rparr>) reach_world =
     Inr (l2_distance (- 100, - 100, 0) (2, 0, 0))"
  "\<not> l2_distance (- 100, - 100, 0) (2, 0, 0) < 0.2"
  using l2_norm_ge_x [of "- 102" "- 100" 0]
  by (simp_all add: get_potential_def InteractiveNavigateEnv_get_potential_def
      door_started_simps stage_get_to_door_handle_def start_world_simps reach_world_simps
      l2_distance_def vec3_sub_def l2_norm_x goal_distance_def get_position_of_interest_def)

lemma door_second_get_termination:
  "get_termination (door_started\<lparr>current_step := 1, normalized_potential := 1 / 2\<rparr>)
     reach_world =
     (Inr (False, []),
      door_started\<lparr>current_step := 2, normalized_potential := 1 / 2\<rparr>)"
  using door_second_potential(4)
  by (simp add: get_termination_def Let_def door_started_simps reach_world_simps vec3_z_def
      goal_distance_def get_position_of_interest_def)

theorem shaping_term_positive_witness:
  "(\<exists>obs1. step door_started [0, 0] start_world start_world start_input =
      Some (Inr (obs1, 0, False, []), door_started\<lparr>current_step := 1\<rparr>)) \<and>
   \<not> automatic_reset door_started \<and>
   stage_transition (door_started\<lparr>current_step := 1\<rparr>) reach_world =
     (Inr (), door_started\<lparr>current_step := 1\<rparr>) \<and>
   get_potential (door_started\<lparr>current_step := 1\<rparr>) start_world = Inr 2 \<and>
   get_potential (door_started\<lparr>current_step := 1\<rparr>) reach_world = Inr 1 \<and>
   0 < shaping_term (door_started\<lparr>current_step := 1\<rparr>) 1 \<and>
   shaping_term (door_started\<lparr>current_step := 1\<rparr>) 1 = 5 \<and>
   get_reward (door_started\<lparr>current_step := 1\<rparr>) reach_world
     (run_simulation (door_started\<lparr>current_step := 1\<rparr>) reach_world) =
     (Inr 5, door_started\<lparr>current_step := 1, normalized_potential := 1 / 2\<rparr>) \<and>
   (\<exists>obs2. step (door_started\<lparr>current_step := 1\<rparr>) [0, 0] reach_world reach_world
      start_input =
      Some (Inr (obs2, 5, False, []),
            door_started\<lparr>current_step := 2, normalized_potential := 1 / 2\<rparr>)) \<and>
   get_reward pointgoal_started (standing_world (1, 0, 0) (2, 0, 0) (3, 0, 0) 0 []) [] =
     (Inr 2.49, pointgoal_started\<lparr>normalized_potential := 3 / 4\<rparr>) \<and>
   get_potential (pointgoal_started\<lparr>normalized_potential := 3 / 4\<rparr>)
     (standing_world (2, 0, 0) (3, 0, 0) (3, 0, 0) 0 []) = Inr 2 \<and>
   0 < shaping_term (pointgoal_started\<lparr>normalized_potential := 3 / 4\<rparr>) 2 \<and>
   get_reward (pointgoal_started\<lparr>normalized_potential := 3 / 4\<rparr>)
     (standing_world (2, 0, 0) (3, 0, 0) (3, 0, 0) 0 []) [] =
     (Inr 2.49, pointgoal_started\<lparr>normalized_potential := 1 / 2\<rparr>)"
proof -
  let ?e = "door_started\<lparr>current_step := 1\<rparr>"
  let ?v1 = "standing_world (1, 0, 0) (2, 0, 0) (3, 0, 0) 0 []"
  let ?v2 = "standing_world (2, 0, 0) (3, 0, 0) (3, 0, 0) 0 []"
  let ?b1 = "pointgoal_started\<lparr>normalized_potential := 3 / 4\<rparr>"
  from door_first_step obtain obs1 where
    first: "step door_started [0, 0] start_world start_world start_input =
      Some (Inr (obs1, 0, False, []), ?e)"
    by blast
  have cls: "env_class door_started = InteractiveNavigateEnv"
    and flag: "\<not> automatic_reset door_started"
    by (simp_all add: door_started_simps)
  have ids: "link_ids_off_handle ?e (run_simulation ?e reach_world) = Inr []"
    by (simp add: run_simulation_no_contact reach_world_simps)
  have pos: "0 < initial_potential ?e" "0 < potential_reward_weight ?e"
    by (simp_all add: door_started_simps)
  have sh: "shaping_term ?e 1 = 5"
    by (simp add: shaping_term_def door_started_simps)
  have terms: "electricity_term ?e reach_world = 0" "stall_torque_term ?e reach_world = 0"
    "collision_term ?e [] = 0"
    "success_bonus ?e (l2_distance (- 100, - 100, 0) (2, 0, 0)) = 0"
    "failure_penalty ?e reach_world = 0"
    using door_second_potential(4)
    by (simp_all add: electricity_term_def stall_torque_term_def collision_term_def
        success_bonus_def failure_penalty_def door_started_simps reach_world_simps mean_zeros
        clip_def vec3_z_def)
  have int: "0 < shaping_term ?e 1 \<and>
      get_reward ?e reach_world (run_simulation ?e reach_world) =
        (Inr (shaping_term ?e 1 + electricity_term ?e reach_world +
              stall_torque_term ?e reach_world + collision_term ?e [] +
              success_bonus ?e (l2_distance (- 100, - 100, 0) (2, 0, 0)) -
              failure_penalty ?e reach_world),
         ?e\<lparr>normalized_potential := 1 / initial_potential ?e\<rparr>)"
    using shaping_term_positive [where ?env0.0 = door_started and ?action1.0 = "[0, 0]"
        and ?pre1.0 = start_world and ?w1.0 = start_world and ?rin1.0 = start_input
        and ?obs1.0 = obs1 and ?r1.0 = 0 and ?fin1.0 = False and ?info1.0 = "[]" and ?env1.0 = ?e
        and ?pre2.0 = reach_world and env = ?e and ?p1.0 = 2 and ?w2.0 = reach_world
        and ?p2.0 = 1 and ids = "[]" and d = "l2_distance (- 100, - 100, 0) (2, 0, 0)"]
      cls first door_second_stays door_second_potential(1,2,3) ids pos
    by simp
  then have reward: "get_reward ?e reach_world (run_simulation ?e reach_world) =
      (Inr 5, door_started\<lparr>current_step := 1, normalized_potential := 1 / 2\<rparr>)"
    using sh terms by (simp add: door_started_simps)
  obtain obs2 where
    "get_state ?e reach_world (run_simulation ?e reach_world) = Inr obs2"
    using interactive_get_state_returns [of ?e reach_world "run_simulation ?e reach_world"]
    by (auto simp: door_started_simps reach_world_simps)
  from NavigateEnv_step_returns [OF this reward door_second_get_termination,
      of "[0, 0]" start_input] door_second_stays
  have second: "\<exists>obs2. step ?e [0, 0] reach_world reach_world start_input =
      Some (Inr (obs2, 5, False, []),
            door_started\<lparr>current_step := 2, normalized_potential := 1 / 2\<rparr>)"
    by (auto simp: step_def InteractiveNavigateEnv_step_def door_started_simps)
  have p: "get_potential pointgoal_started ?v1 = Inr 3"
    and g: "goal_distance pointgoal_started ?v1 = Inr 3"
    using pointgoal_started_potential [of 1] by simp_all
  have b_first: "get_reward pointgoal_started ?v1 [] = (Inr 2.49, ?b1)"
    using NavigateEnv_get_reward_sum [OF p _ g, of "[]" "[]"]
    by (simp add: get_reward_base pointgoal_started_simps pointgoal_started_rewards
        shaping_term_def collision_term_def success_bonus_def)
  have q1: "get_potential ?b1 ?v1 = Inr 3"
    using p by (simp add: get_potential_tracker)
  have q2: "get_potential ?b1 ?v2 = Inr 2"
    using pointgoal_started_potential(1) [of 2] by (simp add: get_potential_tracker)
  have base: "0 < shaping_term ?b1 2 \<and>
      get_reward ?b1 ?v2 [] =
        (Inr (slack_reward ?b1 + shaping_term ?b1 2 +
              0 * electricity_reward_weight ?b1 + 0 * stall_torque_reward_weight ?b1 +
              collision_term ?b1 [] + success_bonus ?b1 2),
         ?b1\<lparr>normalized_potential := 2 / initial_potential ?b1\<rparr>)"
    using shaping_term_positive [where ?b0.0 = pointgoal_started and ?v1.0 = ?v1
        and ?links1.0 = "[]" and ?s1.0 = "2.49" and ?b1.0 = ?b1 and ?q1.0 = 3 and ?v2.0 = ?v2
        and ?q2.0 = 2 and ?links2.0 = "[]" and ?ids2.0 = "[]"]
      b_first q1 q2
    by (simp add: pointgoal_started_simps pointgoal_started_rewards)
  then have b_second: "get_reward ?b1 ?v2 [] =
      (Inr 2.49, pointgoal_started\<lparr>normalized_potential := 1 / 2\<rparr>)"
    by (simp add: pointgoal_started_simps pointgoal_started_rewards shaping_term_def
        collision_term_def success_bonus_def)
  from first flag door_second_stays door_second_potential(1,2) int sh reward second
    b_first q2 base b_second
  show ?thesis
    by blast
qed

end
